theory Spec2Isabelle
  imports Main "HOL-Library.Word"
begin

section \<open>JavaScript strings\<close>

text \<open>
  A JavaScript string is a sequence of UTF-16 code units; \<open>.length\<close> counts code units.
  The literals of the source are ASCII and are written through \<open>js\<close>.
\<close>

type_synonym code_unit = "16 word"
type_synonym jsstring = "code_unit list"

definition js :: "string \<Rightarrow> jsstring" where
  "js s = map (\<lambda>c. of_nat (of_char c)) s"

text \<open>
  \<open>String.prototype.trim\<close> strips WhiteSpace and LineTerminator code points from both
  ends: TAB, LF, VT, FF, CR, SPACE, NBSP, U+1680, U+2000..U+200A, U+2028, U+2029, U+202F,
  U+205F, U+3000 and U+FEFF.
\<close>

definition is_ws :: "code_unit \<Rightarrow> bool" where
  "is_ws c = (c = 0x9 \<or> c = 0xA \<or> c = 0xB \<or> c = 0xC \<or> c = 0xD \<or> c = 0x20 \<or> c = 0xA0
     \<or> c = 0x1680 \<or> (0x2000 \<le> c \<and> c \<le> 0x200A) \<or> c = 0x2028 \<or> c = 0x2029
     \<or> c = 0x202F \<or> c = 0x205F \<or> c = 0x3000 \<or> c = 0xFEFF)"

definition trim :: "jsstring \<Rightarrow> jsstring" where
  "trim s = rev (dropWhile is_ws (rev (dropWhile is_ws s)))"

text \<open>\<open>s.startsWith(p)\<close> and \<open>s.includes(p)\<close> (a substring search).\<close>

fun starts_with :: "jsstring \<Rightarrow> jsstring \<Rightarrow> bool" where
  "starts_with s [] = True"
| "starts_with [] (p # ps) = False"
| "starts_with (x # xs) (p # ps) = (x = p \<and> starts_with xs ps)"

fun includes_str :: "jsstring \<Rightarrow> jsstring \<Rightarrow> bool" where
  "includes_str [] p = (p = [])"
| "includes_str (x # xs) p = (starts_with (x # xs) p \<or> includes_str xs p)"

subsection \<open>The regular expression of normalizeUrlInput\<close>

text \<open>
  \<open>/^https?:\/\//i\<close> is a sequence of single characters, one of them optional, anchored
  at the start of the input and matched ignoring case. Without the \<open>u\<close> flag, ignoring
  case compares \<open>Canonicalize(ch)\<close>: the upper-case mapping of the code unit, except that a
  code unit of value 128 or more never canonicalizes to one below 128. All pattern
  characters here are ASCII, so only the canonical form of ASCII code units decides a
  comparison, and the other code units are left as they are.
\<close>

datatype rx_atom = Lit code_unit | Opt code_unit

definition Canonicalize :: "code_unit \<Rightarrow> code_unit" where
  "Canonicalize ch = (if 0x61 \<le> ch \<and> ch \<le> 0x7A then ch - 0x20 else ch)"

fun rx_char :: "code_unit \<Rightarrow> jsstring \<Rightarrow> jsstring option" where
  "rx_char c [] = None"
| "rx_char c (x # xs) = (if Canonicalize x = Canonicalize c then Some xs else None)"

text \<open>Matching at the current position; an optional character is tried first (greedy),
  then skipped (backtracking).\<close>

fun rx_match :: "rx_atom list \<Rightarrow> jsstring \<Rightarrow> bool" where
  "rx_match [] s = True"
| "rx_match (Lit c # r) s = (case rx_char c s of None \<Rightarrow> False | Some s' \<Rightarrow> rx_match r s')"
| "rx_match (Opt c # r) s =
     ((case rx_char c s of None \<Rightarrow> False | Some s' \<Rightarrow> rx_match r s') \<or> rx_match r s)"

definition scheme_rx :: "rx_atom list" where
  "scheme_rx = map Lit (js ''http'') @ [Opt (of_nat (of_char CHR ''s''))] @ map Lit (js ''://'')"

subsection \<open>triToBool and normalizeUrlInput (CheckPage.jsx)\<close>

text \<open>\<open>triToBool\<close>: \<open>None\<close> is JavaScript's \<open>null\<close>.\<close>

definition triToBool :: "jsstring \<Rightarrow> bool option" where
  "triToBool v = (if v = js ''yes'' then Some True else if v = js ''no'' then Some False else None)"

text \<open>
  \<open>normalizeUrlInput\<close>: the argument is always a string of the form state, for which
  \<open>v || ""\<close> is \<open>v\<close> itself.
\<close>

definition normalizeUrlInput :: "jsstring \<Rightarrow> jsstring" where
  "normalizeUrlInput v =
     (let s = trim v in
      if s = [] then []
      else if rx_match scheme_rx s then s
      else if includes_str s (js ''.'') \<or> includes_str s (js ''/'') then js ''https://'' @ s
      else s)"

section \<open>JavaScript values read from a response\<close>

text \<open>
  The values \<open>JSON.parse\<close> produces. A number is kept as the string \<open>ToString\<close> renders
  it to (\<open>0\<close> and \<open>-0\<close> both render as \<open>"0"\<close>); the only operations the source applies
  to a parsed number are the truthiness test and the conversion to a string. An object is
  the list of its own properties. \<open>undefined\<close> is \<open>None\<close> of \<open>json option\<close>.
\<close>

datatype json =
    JNull
  | JBool bool
  | JNum jsstring
  | JStr jsstring
  | JArr "json list"
  | JObj "(jsstring \<times> json) list"

text \<open>Reading a property \<open>v.k\<close> of a value that is not \<open>null\<close>, for a key that no
  prototype defines (\<open>detail\<close>, \<open>error\<close>, \<open>sha256\<close>, \<open>id\<close>, \<open>status\<close>).\<close>

fun get_prop :: "json \<Rightarrow> jsstring \<Rightarrow> json option" where
  "get_prop (JObj fs) k = map_of fs k"
| "get_prop v k = None"

fun truthy :: "json \<Rightarrow> bool" where
  "truthy JNull = False"
| "truthy (JBool b) = b"
| "truthy (JNum n) = (n \<noteq> js ''0'')"
| "truthy (JStr s) = (s \<noteq> [])"
| "truthy (JArr xs) = True"
| "truthy (JObj fs) = True"

definition truthy_opt :: "json option \<Rightarrow> bool" where
  "truthy_opt v = (case v of None \<Rightarrow> False | Some j \<Rightarrow> truthy j)"

text \<open>\<open>a && b\<close> and \<open>a || b\<close> on values. JavaScript evaluates the right operand only
  when it is the result; the right operands of the source are property reads, which have
  no effect, and which are the result only for a left operand that is not \<open>null\<close>.\<close>

definition js_and :: "json option \<Rightarrow> json option \<Rightarrow> json option" where
  "js_and a b = (if truthy_opt a then b else a)"

definition js_or :: "json option \<Rightarrow> json option \<Rightarrow> json option" where
  "js_or a b = (if truthy_opt a then a else b)"

fun join_comma :: "jsstring list \<Rightarrow> jsstring" where
  "join_comma [] = []"
| "join_comma [s] = s"
| "join_comma (s # t # ts) = s @ js '','' @ join_comma (t # ts)"

text \<open>\<open>ToString\<close>: an array is its elements joined by commas, \<open>null\<close> elements as the
  empty string; an object is \<open>[object Object]\<close>.\<close>

fun to_string :: "json \<Rightarrow> jsstring" where
  "to_string JNull = js ''null''"
| "to_string (JBool b) = (if b then js ''true'' else js ''false'')"
| "to_string (JNum n) = n"
| "to_string (JStr s) = s"
| "to_string (JArr xs) = join_comma (map (\<lambda>x. if x = JNull then [] else to_string x) xs)"
| "to_string (JObj fs) = js ''[object Object]''"

definition to_string_opt :: "json option \<Rightarrow> jsstring" where
  "to_string_opt v = (case v of None \<Rightarrow> js ''undefined'' | Some j \<Rightarrow> to_string j)"

text \<open>The decimal rendering of a non-negative integer, as a template literal renders
  \<open>res.status\<close>.\<close>

fun nat_str :: "nat \<Rightarrow> jsstring" where
  "nat_str n = (if n < 10 then [of_nat (48 + n)] else nat_str (n div 10) @ [of_nat (48 + n mod 10)])"

declare nat_str.simps [simp del]

text \<open>An exception: \<open>new Error(message)\<close>, or the \<open>TypeError\<close> of reading a property of
  \<open>null\<close>. The constructor converts a message that is not \<open>undefined\<close> to a string.\<close>

datatype js_error = Error jsstring | TypeError jsstring

definition new_Error :: "json option \<Rightarrow> js_error" where
  "new_Error m = Error (case m of None \<Rightarrow> [] | Some j \<Rightarrow> to_string j)"

fun message :: "js_error \<Rightarrow> jsstring" where
  "message (Error m) = m"
| "message (TypeError m) = m"

text \<open>What the source takes from the JavaScript engine: \<open>JSON.parse\<close> (\<open>None\<close> when it
  throws) and the message of the \<open>TypeError\<close> for reading a property of \<open>null\<close>.\<close>

record js_runtime =
  JSON_parse :: "jsstring \<Rightarrow> json option"
  null_read_message :: "jsstring \<Rightarrow> jsstring"

section \<open>The network\<close>

record js_file =
  file_name :: jsstring
  file_bytes :: "8 word list"

record linked_account =
  la_platform :: jsstring
  la_value :: jsstring

datatype ev_value = EvBool bool | EvStr jsstring

text \<open>The body of \<open>POST /api/check\<close> as \<open>onSubmit\<close> of CheckPage builds it, before
  \<open>JSON.stringify\<close>; \<open>None\<close> is \<open>null\<close>, and an element \<open>None\<close> of
  \<open>attachment_sha256s\<close> is \<open>undefined\<close>.\<close>

record check_payload =
  entity_type :: jsstring
  entity_value :: jsstring
  intent :: "jsstring option"
  price_range :: "jsstring option"
  seller_phone :: "jsstring option"
  seller_email :: "jsstring option"
  seller_website :: "jsstring option"
  user_contact :: "jsstring option"
  evidence :: "(string \<times> ev_value) list"
  attachment_sha256s :: "json option list option"
  linked_accounts :: "linked_account list"

text \<open>The body of \<open>POST /api/community/report\<close>. \<open>Number(amount)\<close> is kept as the string
  it converts; \<open>linked_accounts\<close> is always \<open>null\<close>.\<close>

datatype js_number = Number jsstring

record report_payload =
  r_entity_type :: jsstring
  r_entity_value :: jsstring
  r_category :: jsstring
  r_description :: jsstring
  r_amount :: "js_number option"
  r_evidence_url :: "jsstring option"
  r_reporter_contact :: "jsstring option"
  r_attachment_sha256s :: "json option list option"
  r_linked_accounts :: "linked_account list option"

datatype req_body = Json_check check_payload | Json_report report_payload | Form_file js_file

record request =
  url :: jsstring
  http_method :: jsstring
  headers :: "(jsstring \<times> jsstring) list"
  body :: "req_body option"

text \<open>A response: its status (\<open>res.ok\<close> is a status from 200 to 299) and its body text,
  \<open>None\<close> when reading the body fails.\<close>

record response =
  status :: nat
  body_text :: "jsstring option"

definition ok :: "response \<Rightarrow> bool" where
  "ok res = (200 \<le> status res \<and> status res \<le> 299)"

text \<open>\<open>fetch\<close> either rejects (a network failure, with the message of its error) or
  resolves to a response.\<close>

datatype fetch_outcome = NetworkError jsstring | Responded response

text \<open>The world outside the page: what the server answers to each request, and the
  requests sent so far, in order.\<close>

record world =
  respond :: "request \<Rightarrow> fetch_outcome"
  sent :: "request list"

definition fetch :: "request \<Rightarrow> world \<Rightarrow> fetch_outcome \<times> world" where
  "fetch req w = (respond w req, w\<lparr>sent := sent w @ [req]\<rparr>)"

text \<open>The requests sent between two states of the world.\<close>

definition new_requests :: "world \<Rightarrow> world \<Rightarrow> request list" where
  "new_requests w w' = drop (length (sent w)) (sent w')"

section \<open>api.js\<close>

text \<open>\<open>API_BASE = import.meta.env.VITE_API_BASE || ""\<close>; the variable is a string or
  \<open>undefined\<close>.\<close>

definition API_BASE :: "jsstring option \<Rightarrow> jsstring" where
  "API_BASE env = (case env of None \<Rightarrow> [] | Some b \<Rightarrow> if b = [] then [] else b)"

text \<open>The \<open>options\<close> argument of \<open>httpJson\<close>; \<open>None\<close> is an absent key.\<close>

record fetch_options =
  o_method :: "jsstring option"
  o_headers :: "(jsstring \<times> jsstring) list option"
  o_body :: "req_body option"

definition is_string :: "json option \<Rightarrow> bool" where
  "is_string v = (case v of Some (JStr s) \<Rightarrow> True | _ \<Rightarrow> False)"

text \<open>The message of the error \<open>httpJson\<close> throws for a response that is not ok.\<close>

definition http_error_message :: "json \<Rightarrow> nat \<Rightarrow> json option" where
  "http_error_message data st =
     js_or
       (js_or
          (js_and
             (js_and (Some data) (get_prop data (js ''detail'')))
             (if is_string (get_prop data (js ''detail'')) then get_prop data (js ''detail'')
              else Some JNull))
          (js_and (Some data) (get_prop data (js ''error''))))
       (Some (JStr (js ''HTTP '' @ nat_str st)))"

text \<open>
  \<open>httpJson\<close>. The init object of \<open>fetch\<close> is \<open>{headers: {...}, ...options}\<close>: a
  \<open>headers\<close> key of \<open>options\<close> replaces the merged headers, and without a \<open>method\<close>
  key \<open>fetch\<close> sends a GET (\<open>http_request\<close> is the request sent). A rejected \<open>fetch\<close>
  rejects \<open>httpJson\<close> with a \<open>TypeError\<close>.
\<close>

definition http_request :: "jsstring \<Rightarrow> jsstring \<Rightarrow> fetch_options \<Rightarrow> request" where
  "http_request base path options =
     \<lparr>url = base @ path,
      http_method = (case o_method options of None \<Rightarrow> js ''GET'' | Some m \<Rightarrow> m),
      headers = (case o_headers options of
                   None \<Rightarrow> [(js ''Content-Type'', js ''application/json'')]
                 | Some h \<Rightarrow> h),
      body = o_body options\<rparr>"

text \<open>\<open>await res.text().catch(() => "")\<close>.\<close>

definition res_text :: "response \<Rightarrow> jsstring" where
  "res_text res = (case body_text res of None \<Rightarrow> [] | Some t \<Rightarrow> t)"

definition httpJson ::
  "js_runtime \<Rightarrow> jsstring \<Rightarrow> jsstring \<Rightarrow> fetch_options \<Rightarrow> world \<Rightarrow> (js_error + json) \<times> world" where
  "httpJson rt base path options w =
     (case fetch (http_request base path options) w of
        (NetworkError e, w') \<Rightarrow> (Inl (TypeError e), w')
      | (Responded res, w') \<Rightarrow>
          (let text = res_text res;
               data = (if text = [] then JNull
                       else case JSON_parse rt text of None \<Rightarrow> JStr text | Some d \<Rightarrow> d)
           in if \<not> ok res then (Inl (new_Error (http_error_message data (status res))), w')
              else (Inr data, w')))"

definition createCheck ::
  "js_runtime \<Rightarrow> jsstring \<Rightarrow> check_payload \<Rightarrow> world \<Rightarrow> (js_error + json) \<times> world" where
  "createCheck rt base payload w =
     httpJson rt base (js ''/api/check'')
       \<lparr>o_method = Some (js ''POST''), o_headers = None, o_body = Some (Json_check payload)\<rparr> w"

definition submitCommunityReport ::
  "js_runtime \<Rightarrow> jsstring \<Rightarrow> report_payload \<Rightarrow> world \<Rightarrow> (js_error + json) \<times> world" where
  "submitCommunityReport rt base payload w =
     httpJson rt base (js ''/api/community/report'')
       \<lparr>o_method = Some (js ''POST''), o_headers = None, o_body = Some (Json_report payload)\<rparr> w"

text \<open>\<open>await res.json().catch(() => null)\<close>: \<open>null\<close> when the body cannot be read or
  parsed.\<close>

definition res_json :: "js_runtime \<Rightarrow> response \<Rightarrow> json" where
  "res_json rt res =
     (case body_text res of
        None \<Rightarrow> JNull
      | Some t \<Rightarrow> (case JSON_parse rt t of None \<Rightarrow> JNull | Some d \<Rightarrow> d))"

text \<open>The request of \<open>uploadFile\<close>: a form with the file, no headers given.\<close>

definition upload_request :: "jsstring \<Rightarrow> js_file \<Rightarrow> request" where
  "upload_request base f =
     \<lparr>url = base @ js ''/api/upload'', http_method = js ''POST'', headers = [],
      body = Some (Form_file f)\<rparr>"

definition uploadFile ::
  "js_runtime \<Rightarrow> jsstring \<Rightarrow> js_file \<Rightarrow> world \<Rightarrow> (js_error + json) \<times> world" where
  "uploadFile rt base f w =
     (case fetch (upload_request base f) w of
        (NetworkError e, w') \<Rightarrow> (Inl (TypeError e), w')
      | (Responded res, w') \<Rightarrow>
          (let data = res_json rt res
           in if \<not> ok res
              then (Inl (new_Error
                      (js_or (js_and (Some data) (get_prop data (js ''detail'')))
                         (Some (JStr (js ''Upload failed (HTTP '' @ nat_str (status res) @ js '')''))))),
                    w')
              else (Inr data, w')))"

definition reportPdfUrl :: "jsstring \<Rightarrow> json option \<Rightarrow> jsstring" where
  "reportPdfUrl base ident = base @ js ''/api/report/'' @ to_string_opt ident @ js ''/pdf''"

definition fileUrl :: "jsstring \<Rightarrow> json option \<Rightarrow> jsstring" where
  "fileUrl base sha256 = base @ js ''/api/file/'' @ to_string_opt sha256"

section \<open>CheckPage.jsx\<close>

text \<open>The state of the check form (the \<open>useState\<close> cells \<open>onSubmit\<close> reads); the cell
  \<open>intent\<close> is \<open>intent_in\<close> here, \<open>intent\<close> being the key of the payload.\<close>

record check_form =
  platform :: jsstring
  entityValue :: jsstring
  intent_in :: jsstring
  priceRange :: jsstring
  sellerPhone :: jsstring
  sellerEmail :: jsstring
  sellerWebsite :: jsstring
  userContact :: jsstring
  checkFile :: "js_file option"
  linked :: "linked_account list"
  hasAbout :: jsstring
  hasReviews :: jsstring
  hasAddress :: jsstring
  hasPhone :: jsstring
  hasWebsite :: jsstring
  hasOldPosts :: jsstring
  hasRecentPosts :: jsstring
  askedAdvance :: jsstring
  paymentMethod :: jsstring
  locationProvided :: jsstring
  sellerAgeVisible :: jsstring
  httpsPresent :: jsstring
  returnPolicyVisible :: jsstring

text \<open>The state \<open>onSubmit\<close> writes; \<open>null\<close> is \<open>JNull\<close>.\<close>

record check_ui =
  loading :: bool
  result :: json
  error :: jsstring
  formErrors :: "(string \<times> jsstring) list"
  touched :: "string set"
  checkUpload :: json

text \<open>\<open>s || null\<close> for a string \<open>s\<close>.\<close>

definition or_null :: "jsstring \<Rightarrow> jsstring option" where
  "or_null s = (if s = [] then None else Some s)"

text \<open>Deleting the keys whose value is \<open>null\<close> from an object literal.\<close>

fun delete_nulls :: "(string \<times> 'a option) list \<Rightarrow> (string \<times> 'a) list" where
  "delete_nulls [] = []"
| "delete_nulls ((k, None) # e) = delete_nulls e"
| "delete_nulls ((k, Some v) # e) = (k, v) # delete_nulls e"

definition buildEvidence :: "check_form \<Rightarrow> (string \<times> ev_value) list" where
  "buildEvidence f =
     (let e = [
        (''has_about'', map_option EvBool (triToBool (hasAbout f))),
        (''has_reviews'', map_option EvBool (triToBool (hasReviews f))),
        (''has_address'', map_option EvBool (triToBool (hasAddress f))),
        (''has_phone_or_email'', map_option EvBool (triToBool (hasPhone f))),
        (''has_website'', map_option EvBool (triToBool (hasWebsite f))),
        (''has_posts_older_than_6_months'', map_option EvBool (triToBool (hasOldPosts f))),
        (''has_recent_posts_last_30_days'', map_option EvBool (triToBool (hasRecentPosts f))),
        (''asked_advance_payment'', map_option EvBool (triToBool (askedAdvance f))),
        (''payment_method'', map_option EvStr (or_null (trim (paymentMethod f)))),
        (''location_provided'', map_option EvBool (triToBool (locationProvided f))),
        (''seller_age_visible'', map_option EvBool (triToBool (sellerAgeVisible f))),
        (''https_present'', map_option EvBool (triToBool (httpsPresent f))),
        (''return_policy_visible'', map_option EvBool (triToBool (returnPolicyVisible f)))]
      in delete_nulls e)"

definition validate :: "check_form \<Rightarrow> (string \<times> jsstring) list" where
  "validate f =
     (if length (trim (entityValue f)) < 3
      then [(''entityValue'', js ''Required: add a valid link / handle / number.'')]
      else [])"

text \<open>The payload literal of \<open>onSubmit\<close>; \<open>uploaded\<close> is the value of \<open>uploadFile\<close>, or
  \<open>null\<close> when no file was chosen.\<close>

definition check_payload_of :: "check_form \<Rightarrow> json \<Rightarrow> check_payload" where
  "check_payload_of f uploaded =
     \<lparr>entity_type = platform f,
      entity_value = normalizeUrlInput (entityValue f),
      intent = or_null (trim (intent_in f)),
      price_range = or_null (trim (priceRange f)),
      seller_phone = or_null (trim (sellerPhone f)),
      seller_email = or_null (trim (sellerEmail f)),
      seller_website = or_null (normalizeUrlInput (sellerWebsite f)),
      user_contact = or_null (trim (userContact f)),
      evidence = buildEvidence f,
      attachment_sha256s =
        (if truthy uploaded then Some [get_prop uploaded (js ''sha256'')] else None),
      linked_accounts =
        filter (\<lambda>x. length (la_value x) \<ge> 3)
          (map (\<lambda>x. \<lparr>la_platform = la_platform x, la_value = trim (la_value x)\<rparr>) (linked f))\<rparr>"

text \<open>The \<open>catch\<close> and \<open>finally\<close> blocks of \<open>onSubmit\<close>.\<close>

definition check_failed :: "js_error \<Rightarrow> check_ui \<Rightarrow> check_ui" where
  "check_failed err ui =
     ui\<lparr>error := (if message err = [] then js ''Something went wrong'' else message err),
        loading := False\<rparr>"

text \<open>\<open>onSubmit\<close>: the new state of the page and the world after the requests it sent.\<close>

definition onSubmit ::
  "js_runtime \<Rightarrow> jsstring \<Rightarrow> check_form \<Rightarrow> check_ui \<Rightarrow> world \<Rightarrow> check_ui \<times> world" where
  "onSubmit rt base f ui w =
     (let ui1 = ui\<lparr>error := [], result := JNull, touched := insert ''entityValue'' (touched ui)\<rparr>;
          errs = validate f;
          ui2 = ui1\<lparr>formErrors := errs\<rparr>
      in if errs \<noteq> [] then (ui2\<lparr>error := js ''Please fix the highlighted fields and try again.''\<rparr>, w)
         else
           (let ui3 = ui2\<lparr>loading := True\<rparr>;
                up = (case checkFile f of
                        Some file \<Rightarrow> uploadFile rt base file w
                      | None \<Rightarrow> (Inr JNull, w))
            in case up of
                 (Inl err, w1) \<Rightarrow> (check_failed err ui3, w1)
               | (Inr uploaded, w1) \<Rightarrow>
                   (let ui4 = ui3\<lparr>checkUpload := uploaded\<rparr>
                    in case createCheck rt base (check_payload_of f uploaded) w1 of
                         (Inl err, w2) \<Rightarrow> (check_failed err ui4, w2)
                       | (Inr data, w2) \<Rightarrow> (ui4\<lparr>result := data, loading := False\<rparr>, w2))))"

section \<open>ReportScam.jsx\<close>

text \<open>The state of the report form; the cells \<open>platform\<close>, \<open>entityValue\<close>, \<open>file\<close> and
  \<open>error\<close> carry the prefix \<open>rs\<close> here.\<close>

record report_form =
  rs_platform :: jsstring
  rs_entityValue :: jsstring
  category :: jsstring
  description :: jsstring
  amount :: jsstring
  evidenceUrl :: jsstring
  reporterContact :: jsstring
  rs_file :: "js_file option"

record report_ui =
  submitting :: bool
  success :: jsstring
  rs_error :: jsstring
  fieldErrors :: "(string \<times> jsstring) list"

text \<open>\<open>validate\<close> of ReportScam stores the errors in \<open>fieldErrors\<close> and returns whether
  there are none.\<close>

definition rs_field_errors :: "report_form \<Rightarrow> (string \<times> jsstring) list" where
  "rs_field_errors f =
     (if length (trim (rs_entityValue f)) < 3
      then [(''entityValue'', js ''Required: provide a valid link / number / identifier.'')]
      else []) @
     (if length (trim (description f)) < 12
      then [(''description'', js ''Required: explain what happened (at least 12 characters).'')]
      else [])"

definition rs_validate :: "report_form \<Rightarrow> report_ui \<Rightarrow> bool \<times> report_ui" where
  "rs_validate f ui = (let e = rs_field_errors f in (e = [], ui\<lparr>fieldErrors := e\<rparr>))"

definition report_payload_of :: "report_form \<Rightarrow> json \<Rightarrow> report_payload" where
  "report_payload_of f uploaded =
     \<lparr>r_entity_type = rs_platform f,
      r_entity_value = trim (rs_entityValue f),
      r_category = category f,
      r_description = trim (description f),
      r_amount = (if amount f \<noteq> [] then Some (Number (amount f)) else None),
      r_evidence_url = or_null (trim (evidenceUrl f)),
      r_reporter_contact = or_null (trim (reporterContact f)),
      r_attachment_sha256s =
        (if truthy uploaded then Some [get_prop uploaded (js ''sha256'')] else None),
      r_linked_accounts = None\<rparr>"

definition report_failed :: "js_error \<Rightarrow> report_ui \<Rightarrow> report_ui" where
  "report_failed err ui =
     ui\<lparr>rs_error := (if message err = [] then js ''Failed to submit report'' else message err),
        submitting := False\<rparr>"

definition success_message :: "json \<Rightarrow> jsstring" where
  "success_message out =
     js ''Submitted. Report ID #'' @ to_string_opt (get_prop out (js ''id'')) @
     js '' (status: '' @ to_string_opt (get_prop out (js ''status'')) @
     js ''). It will affect checks after admin approval.''"

text \<open>\<open>onSubmit\<close> of ReportScam: the form (cleared after a success), the new state of
  the page and the world. Reading \<open>out.id\<close> of a \<open>null\<close> response body throws.\<close>

definition rs_onSubmit ::
  "js_runtime \<Rightarrow> jsstring \<Rightarrow> report_form \<Rightarrow> report_ui \<Rightarrow> world
     \<Rightarrow> report_form \<times> report_ui \<times> world" where
  "rs_onSubmit rt base f ui w =
     (let ui1 = ui\<lparr>rs_error := [], success := []\<rparr>;
          (valid, ui2) = rs_validate f ui1
      in if \<not> valid then (f, ui2\<lparr>rs_error := js ''Please fix the required fields.''\<rparr>, w)
         else
           (let ui3 = ui2\<lparr>submitting := True\<rparr>;
                up = (case rs_file f of
                        Some file \<Rightarrow> uploadFile rt base file w
                      | None \<Rightarrow> (Inr JNull, w))
            in case up of
                 (Inl err, w1) \<Rightarrow> (f, report_failed err ui3, w1)
               | (Inr uploaded, w1) \<Rightarrow>
                   (case submitCommunityReport rt base (report_payload_of f uploaded) w1 of
                      (Inl err, w2) \<Rightarrow> (f, report_failed err ui3, w2)
                    | (Inr out, w2) \<Rightarrow>
                        (if out = JNull
                         then (f, report_failed (TypeError (null_read_message rt (js ''id''))) ui3, w2)
                         else (f\<lparr>description := [], amount := [], evidenceUrl := [],
                                  reporterContact := [], rs_file := None\<rparr>,
                               ui3\<lparr>success := success_message out, submitting := False\<rparr>,
                               w2)))))"

section \<open>Definitions used to state the properties\<close>

subsection \<open>Beginning with a scheme, in the words of the specification\<close>

text \<open>The lower-case form of an ASCII letter; every other code unit is itself.\<close>

definition lower_ascii :: "code_unit \<Rightarrow> code_unit" where
  "lower_ascii c = (if 0x41 \<le> c \<and> c \<le> 0x5A then c + 0x20 else c)"

definition begins_with_ci :: "jsstring \<Rightarrow> jsstring \<Rightarrow> bool" where
  "begins_with_ci s p = starts_with (map lower_ascii s) p"

text \<open>"beginning with http:// or https:// (case-insensitively)".\<close>

definition spec_scheme_prefixed :: "jsstring \<Rightarrow> bool" where
  "spec_scheme_prefixed s =
     (begins_with_ci s (js ''http://'') \<or> begins_with_ci s (js ''https://''))"

text \<open>The pattern characters on which the canonical comparison is the comparison of
  lower-case forms: lower-case letters, and the code units below \<open>A\<close>.\<close>

definition rx_plain :: "code_unit \<Rightarrow> bool" where
  "rx_plain c = (c < 0x41 \<or> (0x61 \<le> c \<and> c \<le> 0x7A))"

subsection \<open>The requests of a submission\<close>

text \<open>The request of \<open>createCheck\<close> and of \<open>submitCommunityReport\<close> for a payload.\<close>

definition check_request :: "jsstring \<Rightarrow> check_payload \<Rightarrow> request" where
  "check_request base p =
     http_request base (js ''/api/check'')
       \<lparr>o_method = Some (js ''POST''), o_headers = None, o_body = Some (Json_check p)\<rparr>"

definition report_request :: "jsstring \<Rightarrow> report_payload \<Rightarrow> request" where
  "report_request base p =
     http_request base (js ''/api/community/report'')
       \<lparr>o_method = Some (js ''POST''), o_headers = None, o_body = Some (Json_report p)\<rparr>"

text \<open>The value of \<open>uploaded\<close> in \<open>onSubmit\<close> of ReportScam: \<open>null\<close> without a file,
  otherwise what \<open>uploadFile\<close> returns or throws.\<close>

definition rs_uploaded :: "js_runtime \<Rightarrow> jsstring \<Rightarrow> report_form \<Rightarrow> world \<Rightarrow> js_error + json" where
  "rs_uploaded rt base f w =
     (case rs_file f of None \<Rightarrow> Inr JNull | Some fl \<Rightarrow> fst (uploadFile rt base fl w))"

text \<open>The check payloads among a list of requests, and those a submission of the check
  form sends.\<close>

fun check_payloads :: "request list \<Rightarrow> check_payload list" where
  "check_payloads [] = []"
| "check_payloads (r # rs) =
     (case body r of Some (Json_check p) \<Rightarrow> p # check_payloads rs | _ \<Rightarrow> check_payloads rs)"

definition submitted_checks ::
  "js_runtime \<Rightarrow> jsstring \<Rightarrow> check_form \<Rightarrow> check_ui \<Rightarrow> world \<Rightarrow> check_payload list" where
  "submitted_checks rt base f ui w =
     check_payloads (new_requests w (snd (onSubmit rt base f ui w)))"

subsection \<open>The tri-state questions of the check form\<close>

text \<open>Each tri-state answer of the form with the evidence key \<open>buildEvidence\<close> gives it:
  every entry of its object literal but \<open>payment_method\<close>, which is free text.\<close>

definition tri_questions :: "(string \<times> (check_form \<Rightarrow> jsstring)) list" where
  "tri_questions = [
     (''has_about'', hasAbout),
     (''has_reviews'', hasReviews),
     (''has_address'', hasAddress),
     (''has_phone_or_email'', hasPhone),
     (''has_website'', hasWebsite),
     (''has_posts_older_than_6_months'', hasOldPosts),
     (''has_recent_posts_last_30_days'', hasRecentPosts),
     (''asked_advance_payment'', askedAdvance),
     (''location_provided'', locationProvided),
     (''seller_age_visible'', sellerAgeVisible),
     (''https_present'', httpsPresent),
     (''return_policy_visible'', returnPolicyVisible)]"

subsection \<open>The message of a failed request, in the words of the specification\<close>

text \<open>"the body's detail field if that field is a string, otherwise the body's error
  field if present, otherwise HTTP <status>".\<close>

definition spec_error_message :: "json \<Rightarrow> nat \<Rightarrow> jsstring" where
  "spec_error_message data st =
     (case get_prop data (js ''detail'') of
        Some (JStr s) \<Rightarrow> s
      | _ \<Rightarrow> (case get_prop data (js ''error'') of
                Some e \<Rightarrow> to_string e
              | None \<Rightarrow> js ''HTTP '' @ nat_str st))"

subsection \<open>Example inputs\<close>

text \<open>A JSON text with its double quotes: \<open>quoted s\<close> is \<open>s\<close> between two U+0022.\<close>

definition quoted :: "jsstring \<Rightarrow> jsstring" where
  "quoted s = [0x22] @ s @ [0x22]"

definition ex_upload_text :: jsstring where
  "ex_upload_text = js ''{'' @ quoted (js ''sha256'') @ js '':'' @ quoted (js ''ab12'') @ js ''}''"

definition ex_upload_json :: json where
  "ex_upload_json = JObj [(js ''sha256'', JStr (js ''ab12''))]"

definition ex_detail_text :: jsstring where
  "ex_detail_text = js ''{'' @ quoted (js ''detail'') @ js '':'' @ quoted [] @ js ''}''"

definition ex_detail_json :: json where
  "ex_detail_json = JObj [(js ''detail'', JStr [])]"

definition ex_check_text :: jsstring where
  "ex_check_text = js ''{'' @ quoted (js ''id'') @ js '':7}''"

definition ex_check_json :: json where
  "ex_check_json = JObj [(js ''id'', JNum (js ''7''))]"

definition ex_runtime :: js_runtime where
  "ex_runtime =
     \<lparr>JSON_parse = (\<lambda>t. if t = ex_upload_text then Some ex_upload_json
                        else if t = ex_detail_text then Some ex_detail_json
                        else if t = ex_check_text then Some ex_check_json
                        else None),
      null_read_message = (\<lambda>k. js ''Cannot read properties of null'')\<rparr>"

text \<open>A server that stores every upload and answers every other request with a result;
  one whose upload answers 200 with an empty body; one that refuses every request with
  an empty \<open>detail\<close>.\<close>

definition ex_world :: world where
  "ex_world =
     \<lparr>respond = (\<lambda>req. if url req = js ''/api/upload''
                       then Responded \<lparr>status = 200, body_text = Some ex_upload_text\<rparr>
                       else Responded \<lparr>status = 200, body_text = Some ex_check_text\<rparr>),
      sent = []\<rparr>"

definition ex_world_empty_upload :: world where
  "ex_world_empty_upload =
     \<lparr>respond = (\<lambda>req. if url req = js ''/api/upload''
                       then Responded \<lparr>status = 200, body_text = Some []\<rparr>
                       else Responded \<lparr>status = 200, body_text = Some ex_check_text\<rparr>),
      sent = []\<rparr>"

definition ex_world_refusing :: world where
  "ex_world_refusing =
     \<lparr>respond = (\<lambda>req. Responded \<lparr>status = 400, body_text = Some ex_detail_text\<rparr>),
      sent = []\<rparr>"

definition ex_file :: js_file where
  "ex_file = \<lparr>file_name = js ''ad.png'', file_bytes = [0x89, 0x50, 0x4E, 0x47]\<rparr>"

definition ex_form :: check_form where
  "ex_form =
     \<lparr>platform = js ''website'', entityValue = js '' totally-legit-shop.example '',
      intent_in = [], priceRange = [], sellerPhone = [], sellerEmail = [],
      sellerWebsite = js ''HTTP://shop.example'', userContact = [], checkFile = Some ex_file,
      linked = [], hasAbout = js ''yes'', hasReviews = js ''unknown'',
      hasAddress = js ''unknown'', hasPhone = js ''unknown'', hasWebsite = js ''unknown'',
      hasOldPosts = js ''unknown'', hasRecentPosts = js ''unknown'',
      askedAdvance = js ''unknown'', paymentMethod = [], locationProvided = js ''unknown'',
      sellerAgeVisible = js ''unknown'', httpsPresent = js ''no'',
      returnPolicyVisible = js ''unknown''\<rparr>"

definition ex_ui :: check_ui where
  "ex_ui = \<lparr>loading = False, result = JNull, error = [], formErrors = [], touched = {},
            checkUpload = JNull\<rparr>"

definition ex_report :: report_form where
  "ex_report =
     \<lparr>rs_platform = js ''facebook'', rs_entityValue = js ''fb.com/some.seller'',
      category = js ''advance_payment_fraud'', description = js ''  fraud  '', amount = [],
      evidenceUrl = [], reporterContact = [], rs_file = None\<rparr>"

definition ex_report_ui :: report_ui where
  "ex_report_ui = \<lparr>submitting = False, success = [], rs_error = [], fieldErrors = []\<rparr>"

subsection \<open>The message of a failed request, as the code gives it\<close>

text \<open>The \<open>detail\<close> of the body when it is a string that is not empty, otherwise the
  string form of its \<open>error\<close> when that is truthy, otherwise the status.\<close>

definition failure_message :: "json \<Rightarrow> nat \<Rightarrow> jsstring" where
  "failure_message data st =
     (let fallback =
            (case get_prop data (js ''error'') of
               Some e \<Rightarrow> if truthy e then to_string e else js ''HTTP '' @ nat_str st
             | None \<Rightarrow> js ''HTTP '' @ nat_str st)
      in case get_prop data (js ''detail'') of
           Some (JStr s) \<Rightarrow> if s = [] then fallback else s
         | _ \<Rightarrow> fallback)"

section \<open>The backend\<close>

text \<open>
  The sources hold the presentation layer only. The Community Report Store and the
  Scoring Engine run in the backend, whose code is not among them; what follows is
  written from sections 3, 4.3, 4.4 and 6 of the specification.
\<close>

subsection \<open>Community Report Store\<close>

text \<open>Modelled from the spec: the \<open>status\<close> of a CommunityReport (section 3), the state
  of the moderation state machine of the missing backend.\<close>

datatype report_status = Pending | Approved | Rejected

text \<open>Modelled from the spec: a stored CommunityReport of the missing backend, the
  submitted input with its \<open>status\<close>.\<close>

record stored_report =
  sr_input :: report_payload
  sr_status :: report_status

text \<open>Modelled from the spec: the report records of the missing Community Report Store,
  each with its id.\<close>

type_synonym report_store = "(nat \<times> stored_report) list"

text \<open>Modelled from the spec: \<open>submit(report) -> id\<close> of the missing Community Report
  Store (section 4.3), which "always creates Pending". The id is the number of the
  record, counted from 1; the specification leaves the choice of ids open.\<close>

definition submit :: "report_payload \<Rightarrow> report_store \<Rightarrow> nat \<times> report_store" where
  "submit r st =
     (let i = Suc (length st)
      in (i, st @ [(i, \<lparr>sr_input = r, sr_status = Pending\<rparr>)]))"

text \<open>Modelled from the spec: the name of a status in a response of the missing
  backend (section 6 writes \<open>"pending"\<close>).\<close>

fun status_name :: "report_status \<Rightarrow> jsstring" where
  "status_name Pending = js ''pending''"
| "status_name Approved = js ''approved''"
| "status_name Rejected = js ''rejected''"

text \<open>Modelled from the spec: the missing handler of \<open>POST /api/community/report\<close>
  (section 6): it submits the report and answers \<open>{id, status}\<close> with the id and the
  status of the record created, the last of the store.\<close>

definition post_community_report :: "report_payload \<Rightarrow> report_store \<Rightarrow> json \<times> report_store" where
  "post_community_report r st =
     (let (i, st') = submit r st
      in (JObj [(js ''id'', JNum (nat_str i)),
                (js ''status'', JStr (status_name (sr_status (snd (last st')))))],
          st'))"

text \<open>Modelled from the spec: the aggregate of the missing Community Report Store,
  \<open>aggregate(entity_type, entity_value) -> {approved_count, pending_count}\<close>, "matching
  exact entity identity".\<close>

record aggregate =
  approved_count :: nat
  pending_count :: nat

text \<open>Modelled from the spec: the reports of the missing store filed against an entity
  that are in a given status.\<close>

definition reports_in :: "report_status \<Rightarrow> report_store \<Rightarrow> jsstring \<Rightarrow> jsstring \<Rightarrow> stored_report list" where
  "reports_in s st etype evalue =
     filter (\<lambda>rep. sr_status rep = s \<and> r_entity_type (sr_input rep) = etype
                  \<and> r_entity_value (sr_input rep) = evalue)
       (map snd st)"

text \<open>Modelled from the spec: \<open>aggregate\<close> of the missing Community Report Store
  (section 4.3).\<close>

definition aggregate_of :: "report_store \<Rightarrow> jsstring \<Rightarrow> jsstring \<Rightarrow> aggregate" where
  "aggregate_of st etype evalue =
     \<lparr>approved_count = length (reports_in Approved st etype evalue),
      pending_count = length (reports_in Pending st etype evalue)\<rparr>"

subsection \<open>Scoring Engine\<close>

text \<open>Modelled from the spec: the tiers of a Signal and of \<open>risk_level\<close> (section 3) of
  the missing Scoring Engine.\<close>

datatype tier = Low | Medium | High | Unknown

text \<open>Modelled from the spec: the order of the tiers in "the maximum tier among all
  Signals" of the missing Scoring Engine; \<open>Unknown\<close> is below \<open>Low\<close>, since a set of
  Signals that are all Unknown has the maximum Low but for the exception of step 5.\<close>

fun tier_rank :: "tier \<Rightarrow> nat" where
  "tier_rank Unknown = 0"
| "tier_rank Low = 1"
| "tier_rank Medium = 2"
| "tier_rank High = 3"

text \<open>Modelled from the spec: the greater of two tiers, for the maximum of step 5 of the
  missing Scoring Engine.\<close>

definition max_tier :: "tier \<Rightarrow> tier \<Rightarrow> tier" where
  "max_tier a b = (if tier_rank a \<le> tier_rank b then b else a)"

text \<open>Modelled from the spec: the policy constants of the missing Scoring Engine that
  step 3 names and leaves open, the weight of a category ("advance-payment fraud and
  impersonation weighted higher than other") and the severity from which the community
  Signal is High.\<close>

record scoring_policy =
  category_weight :: "jsstring \<Rightarrow> nat"
  high_severity :: nat

text \<open>Modelled from the spec: step 3 of the missing Scoring Engine, the tier of the
  Signal of the Community Report aggregate. With an Approved report it is at least Medium,
  and High from the severity of the policy on, the severity being the sum of the weights
  of the Approved reports ("scales with count and with category weight"); without one
  there is no such Signal.\<close>

definition community_tier ::
  "scoring_policy \<Rightarrow> report_store \<Rightarrow> jsstring \<Rightarrow> jsstring \<Rightarrow> tier option" where
  "community_tier pol st etype evalue =
     (let approved = reports_in Approved st etype evalue
      in if approved = [] then None
         else Some (if high_severity pol
                         \<le> sum_list (map (\<lambda>rep. category_weight pol (r_category (sr_input rep))) approved)
                    then High else Medium))"

text \<open>Modelled from the spec: steps 3 and 5 of the missing Scoring Engine. \<open>tiers\<close> are
  the tiers of the Signals of steps 1, 2 and 4, \<open>answered\<close> tells whether any evidence
  question was answered. The level is the maximum tier among all Signals, but Unknown
  when all Signals are Unknown, no report is Approved and no evidence was answered.\<close>

definition risk_level ::
  "scoring_policy \<Rightarrow> tier list \<Rightarrow> bool \<Rightarrow> report_store \<Rightarrow> jsstring \<Rightarrow> jsstring \<Rightarrow> tier" where
  "risk_level pol tiers answered st etype evalue =
     (let all_tiers = tiers @ (case community_tier pol st etype evalue of None \<Rightarrow> [] | Some t \<Rightarrow> [t])
      in if list_all (\<lambda>t. t = Unknown) all_tiers
            \<and> approved_count (aggregate_of st etype evalue) = 0 \<and> \<not> answered
         then Unknown
         else fold max_tier all_tiers Low)"

subsection \<open>Example store\<close>

definition ex_policy :: scoring_policy where
  "ex_policy =
     \<lparr>category_weight = (\<lambda>c. if c = js ''advance_payment_fraud'' \<or> c = js ''impersonation''
                              then 2 else 1),
      high_severity = 6\<rparr>"

definition ex_valid_report :: report_form where
  "ex_valid_report = ex_report\<lparr>description := js ''Took an advance and vanished.''\<rparr>"

definition ex_store :: report_store where
  "ex_store =
     [(1, \<lparr>sr_input = report_payload_of ex_valid_report JNull, sr_status = Approved\<rparr>)]"

text \<open>A JSON text of the answer to a report, and a runtime that parses it.\<close>

definition ex_report_text :: jsstring where
  "ex_report_text =
     js ''{'' @ quoted (js ''id'') @ js '':2,'' @ quoted (js ''status'') @ js '':''
       @ quoted (js ''pending'') @ js ''}''"

definition ex_report_runtime :: js_runtime where
  "ex_report_runtime =
     \<lparr>JSON_parse = (\<lambda>t. if t = ex_report_text
                        then Some (fst (post_community_report
                                          (report_payload_of ex_valid_report JNull) ex_store))
                        else None),
      null_read_message = (\<lambda>k. js ''Cannot read properties of null'')\<rparr>"

definition ex_report_world :: world where
  "ex_report_world =
     \<lparr>respond = (\<lambda>req. Responded \<lparr>status = 200, body_text = Some ex_report_text\<rparr>), sent = []\<rparr>"

section \<open>Trimming and the scheme test\<close>

lemma trim_fixed:
  assumes "s \<noteq> []" "\<not> is_ws (hd s)" "\<not> is_ws (last s)"
  shows "trim s = s"
proof -
  from assms have a: "dropWhile is_ws s = s" by (cases s) auto
  from assms have "rev s \<noteq> []" "\<not> is_ws (hd (rev s))" by (auto simp: hd_rev)
  then have b: "dropWhile is_ws (rev s) = rev s" by (cases "rev s") auto
  show ?thesis by (simp add: trim_def a b)
qed

lemma trim_ends:
  assumes "trim s \<noteq> []"
  shows "\<not> is_ws (hd (trim s)) \<and> \<not> is_ws (last (trim s))"
proof -
  let ?a = "dropWhile is_ws s"
  let ?b = "dropWhile is_ws (rev ?a)"
  from assms have b: "?b \<noteq> []" by (simp add: trim_def)
  then have hb: "\<not> is_ws (hd ?b)" by (rule hd_dropWhile)
  have a: "?a \<noteq> []"
  proof
    assume e: "?a = []"
    have "?b = []" unfolding e by simp
    with b show False by contradiction
  qed
  then have ha: "\<not> is_ws (hd ?a)" by (rule hd_dropWhile)
  have l: "last (trim s) = hd ?b" using b by (simp add: trim_def last_rev)
  have "\<not> is_ws (last (rev ?a))" using a ha by (simp add: last_rev)
  have "last ?b = last (rev ?a)" using b by (metis last_appendR takeWhile_dropWhile_id)
  then have "hd (trim s) = hd ?a" using a b by (simp add: trim_def hd_rev last_rev)
  with ha hb l show ?thesis by simp
qed

lemma trim_trim: "trim (trim s) = trim s"
proof (cases "trim s = []")
  case True
  have "trim [] = []" by (simp add: trim_def)
  then show ?thesis unfolding True .
next
  case False
  with trim_ends[OF False] show ?thesis by (intro trim_fixed) auto
qed

lemma starts_with_single: "starts_with s [c] \<longleftrightarrow> (s \<noteq> [] \<and> hd s = c)"
  by (cases s) auto

lemma includes_str_single: "includes_str s [c] \<longleftrightarrow> c \<in> set s"
  by (induction s) (auto simp: starts_with_single)

lemma scheme_rx_https: "rx_match scheme_rx (js ''https://'' @ s)"
  by (simp add: scheme_rx_def js_def Canonicalize_def)

lemma trim_https:
  assumes "trim v \<noteq> []"
  shows "trim (js ''https://'' @ trim v) = js ''https://'' @ trim v"
proof (rule trim_fixed)
  show "js ''https://'' @ trim v \<noteq> []" by (simp add: js_def)
  show "\<not> is_ws (hd (js ''https://'' @ trim v))" by (simp add: js_def is_ws_def)
  show "\<not> is_ws (last (js ''https://'' @ trim v))" using assms trim_ends[OF assms] by simp
qed

lemma canon_letter:
  assumes "0x61 \<le> c" "c \<le> 0x7A"
  shows "Canonicalize x = Canonicalize c \<longleftrightarrow> lower_ascii x = c"
  using assms unfolding Canonicalize_def lower_ascii_def
  by (auto simp: word_le_nat_alt word_less_nat_alt unat_sub unat_word_ariths word_unat_eq_iff split: if_splits)

lemma canon_other:
  assumes "c < 0x41"
  shows "Canonicalize x = Canonicalize c \<longleftrightarrow> lower_ascii x = c"
  using assms unfolding Canonicalize_def lower_ascii_def
  by (auto simp: word_le_nat_alt word_less_nat_alt unat_sub unat_word_ariths word_unat_eq_iff split: if_splits)

lemma rx_match_opt:
  "rx_match (map Lit p @ Opt c # r) s \<longleftrightarrow>
     rx_match (map Lit p @ Lit c # r) s \<or> rx_match (map Lit p @ r) s"
proof (induction p arbitrary: s)
  case Nil
  show ?case by simp
next
  case (Cons a p)
  show ?case
  proof (cases s)
    case Nil
    then show ?thesis by simp
  next
    case (Cons x xs)
    with Cons.IH [of xs] show ?thesis by simp
  qed
qed

lemma canon_plain: "rx_plain c \<Longrightarrow> Canonicalize x = Canonicalize c \<longleftrightarrow> lower_ascii x = c"
  unfolding rx_plain_def using canon_letter canon_other by blast

lemma rx_match_lits:
  "\<forall>c \<in> set p. rx_plain c \<Longrightarrow> rx_match (map Lit p) s \<longleftrightarrow> begins_with_ci s p"
proof (induction p arbitrary: s)
  case Nil
  show ?case by (simp add: begins_with_ci_def)
next
  case (Cons a p)
  then have a: "rx_plain a" and p: "\<forall>c \<in> set p. rx_plain c" by simp_all
  show ?case
  proof (cases s)
    case Nil
    then show ?thesis by (simp add: begins_with_ci_def)
  next
    case (Cons x xs)
    with Cons.IH [OF p, of xs] canon_plain [OF a, of x] show ?thesis
      by (simp add: begins_with_ci_def)
  qed
qed

lemma scheme_rx_iff: "rx_match scheme_rx s \<longleftrightarrow> spec_scheme_prefixed s"
proof -
  have "rx_match scheme_rx s \<longleftrightarrow>
      rx_match (map Lit (js ''https://'')) s \<or> rx_match (map Lit (js ''http://'')) s"
    unfolding scheme_rx_def using rx_match_opt [of "js ''http''" _ "map Lit (js ''://'')" s]
    by (simp add: js_def)
  moreover have "\<forall>c \<in> set (js ''https://''). rx_plain c" "\<forall>c \<in> set (js ''http://''). rx_plain c"
    by (simp_all add: js_def rx_plain_def)
  ultimately show ?thesis
    by (auto simp: rx_match_lits spec_scheme_prefixed_def)
qed

section \<open>Normalizing the identifier\<close>

text \<open>
  C9: \<open>normalizeUrlInput\<close> is idempotent: normalizing an identifier that is already
  normalized changes nothing, and in particular adds no second scheme.
\<close>

theorem normalizeUrlInput_idempotent:
  "normalizeUrlInput (normalizeUrlInput s) = normalizeUrlInput s"
proof -
  let ?t = "trim s"
  consider (e) "?t = []" | (a) "?t \<noteq> []" "rx_match scheme_rx ?t"
    | (b) "?t \<noteq> []" "\<not> rx_match scheme_rx ?t" "includes_str ?t (js ''.'') \<or> includes_str ?t (js ''/'')"
    | (c) "?t \<noteq> []" "\<not> rx_match scheme_rx ?t" "\<not> (includes_str ?t (js ''.'') \<or> includes_str ?t (js ''/''))"
    by blast
  then show ?thesis
  proof cases
    case e
    have "trim [] = []" by (simp add: trim_def)
    then have "normalizeUrlInput [] = []" by (simp add: normalizeUrlInput_def)
    moreover have "normalizeUrlInput s = []" unfolding normalizeUrlInput_def Let_def e by simp
    ultimately show ?thesis by simp
  next
    case a then show ?thesis by (simp add: normalizeUrlInput_def trim_trim)
  next
    case b
    then have n: "normalizeUrlInput s = js ''https://'' @ ?t" by (simp add: normalizeUrlInput_def)
    have "normalizeUrlInput (js ''https://'' @ ?t) = js ''https://'' @ ?t"
      unfolding normalizeUrlInput_def Let_def trim_https[OF b(1)] using scheme_rx_https[of ?t]
      by simp
    with n show ?thesis by simp
  next
    case c then show ?thesis by (simp add: normalizeUrlInput_def trim_trim)
  qed
qed

theorem normalizeUrlInput_idempotent_witness:
  "normalizeUrlInput (normalizeUrlInput (js ''  shop.example/x '')) = js ''https://shop.example/x''"
proof -
  have "normalizeUrlInput (js ''  shop.example/x '') = js ''https://shop.example/x''"
    by (simp add: normalizeUrlInput_def trim_def is_ws_def js_def scheme_rx_def Canonicalize_def)
  with normalizeUrlInput_idempotent [of "js ''  shop.example/x ''"] show ?thesis by simp
qed

section \<open>Requests and the world\<close>

lemma fetch_fst: "fst (fetch req w) = respond w req"
  by (simp add: fetch_def)

lemma fetch_snd: "snd (fetch req w) = w\<lparr>sent := sent w @ [req]\<rparr>"
  by (simp add: fetch_def)

lemma uploadFile_world:
  "snd (uploadFile rt base file w) = w\<lparr>sent := sent w @ [upload_request base file]\<rparr>"
  by (simp add: uploadFile_def fetch_def Let_def split: fetch_outcome.splits)

lemma uploadFile_value:
  "fst (uploadFile rt base file w) =
     (case respond w (upload_request base file) of
        NetworkError e \<Rightarrow> Inl (TypeError e)
      | Responded res \<Rightarrow>
          if ok res then Inr (res_json rt res)
          else Inl (new_Error
                 (js_or (js_and (Some (res_json rt res)) (get_prop (res_json rt res) (js ''detail'')))
                    (Some (JStr (js ''Upload failed (HTTP '' @ nat_str (status res) @ js '')''))))))"
  by (simp add: uploadFile_def fetch_def Let_def split: fetch_outcome.splits)

lemma httpJson_world:
  "snd (httpJson rt base path options w) = w\<lparr>sent := sent w @ [http_request base path options]\<rparr>"
  by (simp add: httpJson_def fetch_def Let_def split: fetch_outcome.splits)

lemma createCheck_world:
  "snd (createCheck rt base p w) = w\<lparr>sent := sent w @ [check_request base p]\<rparr>"
  by (simp add: createCheck_def check_request_def httpJson_world)

lemma submitCommunityReport_world:
  "snd (submitCommunityReport rt base p w) = w\<lparr>sent := sent w @ [report_request base p]\<rparr>"
  by (simp add: submitCommunityReport_def report_request_def httpJson_world)

lemma new_requests_append: "sent w' = sent w @ rs \<Longrightarrow> new_requests w w' = rs"
  by (simp add: new_requests_def)

lemma onSubmit_requests:
  "new_requests w (snd (onSubmit rt base f ui w)) =
     (if validate f \<noteq> [] then []
      else case checkFile f of
             None \<Rightarrow> [check_request base (check_payload_of f JNull)]
           | Some file \<Rightarrow>
               upload_request base file #
               (case fst (uploadFile rt base file w) of
                  Inl err \<Rightarrow> []
                | Inr uploaded \<Rightarrow> [check_request base (check_payload_of f uploaded)]))"
proof (cases "validate f \<noteq> []")
  case True
  then show ?thesis by (simp add: onSubmit_def Let_def new_requests_def)
next
  case valid: False
  show ?thesis
  proof (cases "checkFile f")
    case None
    have "snd (onSubmit rt base f ui w) = snd (createCheck rt base (check_payload_of f JNull) w)"
      using valid None by (simp add: onSubmit_def Let_def split: prod.splits sum.splits)
    then show ?thesis using valid None
      by (simp add: createCheck_world new_requests_def)
  next
    case (Some fl)
    obtain r w1 where up: "uploadFile rt base fl w = (r, w1)" by (cases "uploadFile rt base fl w")
    then have w1: "w1 = w\<lparr>sent := sent w @ [upload_request base fl]\<rparr>"
      using uploadFile_world [of rt base fl w] by simp
    show ?thesis
    proof (cases r)
      case (Inl err)
      then have "snd (onSubmit rt base f ui w) = w1"
        using valid Some up by (simp add: onSubmit_def Let_def)
      then show ?thesis using valid Some up Inl w1 by (simp add: new_requests_def)
    next
      case (Inr uploaded)
      then have "snd (onSubmit rt base f ui w) = snd (createCheck rt base (check_payload_of f uploaded) w1)"
        using valid Some up by (simp add: onSubmit_def Let_def split: prod.splits sum.splits)
      then show ?thesis using valid Some up Inr w1
        by (simp add: createCheck_world new_requests_def)
    qed
  qed
qed

lemma body_check_request [simp]: "body (check_request base p) = Some (Json_check p)"
  by (simp add: check_request_def http_request_def)

lemma body_upload_request [simp]: "body (upload_request base fl) = Some (Form_file fl)"
  by (simp add: upload_request_def)

lemma submitted_checks_eq:
  "submitted_checks rt base f ui w =
     (if validate f \<noteq> [] then []
      else case checkFile f of
             None \<Rightarrow> [check_payload_of f JNull]
           | Some file \<Rightarrow>
               (case respond w (upload_request base file) of
                  NetworkError e \<Rightarrow> []
                | Responded res \<Rightarrow> if ok res then [check_payload_of f (res_json rt res)] else []))"
proof (cases "checkFile f")
  case None
  then show ?thesis unfolding submitted_checks_def onSubmit_requests by simp
next
  case (Some fl)
  then show ?thesis unfolding submitted_checks_def onSubmit_requests
    by (cases "respond w (upload_request base fl)") (simp_all add: uploadFile_value)
qed

lemma submitted_checks_payload:
  assumes "p \<in> set (submitted_checks rt base f ui w)"
  obtains uploaded where "p = check_payload_of f uploaded"
proof (cases "checkFile f")
  case None
  with assms have "p = check_payload_of f JNull"
    unfolding submitted_checks_eq by (simp split: if_splits)
  then show ?thesis by (rule that)
next
  case (Some fl)
  with assms obtain res where "p = check_payload_of f (res_json rt res)"
    unfolding submitted_checks_eq by (auto split: if_splits fetch_outcome.splits)
  then show ?thesis by (rule that)
qed

lemma entity_value_payload:
  "entity_value (check_payload_of f uploaded) = normalizeUrlInput (entityValue f)"
  by (simp add: check_payload_of_def)

lemma seller_website_payload:
  "seller_website (check_payload_of f uploaded) = or_null (normalizeUrlInput (sellerWebsite f))"
  by (simp add: check_payload_of_def)

section \<open>Evaluating the example inputs\<close>

lemmas ex_defs = ex_form_def ex_ui_def ex_world_def ex_runtime_def ex_file_def
  ex_upload_text_def ex_upload_json_def ex_check_text_def ex_check_json_def
  ex_detail_text_def ex_detail_json_def quoted_def js_def trim_def is_ws_def

lemma ex_valid: "validate ex_form = []"
  by (simp add: validate_def ex_defs)

lemma ex_submitted:
  "submitted_checks ex_runtime [] ex_form ex_ui ex_world = [check_payload_of ex_form ex_upload_json]"
proof -
  have "respond ex_world (upload_request [] ex_file)
          = Responded \<lparr>status = 200, body_text = Some ex_upload_text\<rparr>"
    by (simp add: ex_world_def upload_request_def)
  moreover have "res_json ex_runtime \<lparr>status = 200, body_text = Some ex_upload_text\<rparr> = ex_upload_json"
    by (simp add: res_json_def ex_runtime_def)
  moreover have "checkFile ex_form = Some ex_file" by (simp add: ex_form_def)
  ultimately show ?thesis
    unfolding submitted_checks_eq using ex_valid by (simp add: ok_def)
qed

section \<open>Validation of the check form\<close>

text \<open>
  C3: when the trimmed identifier of the check form has fewer than 3 characters,
  \<open>onSubmit\<close> sets the validation error and returns with the world unchanged: it sends
  no request, so neither \<open>uploadFile\<close> nor \<open>createCheck\<close> runs and no check is created.
\<close>

theorem check_validation_fails_fast:
  assumes "length (trim (entityValue f)) < 3"
  shows "validate f \<noteq> []
       \<and> onSubmit rt base f ui w =
           (ui\<lparr>error := js ''Please fix the highlighted fields and try again.'', result := JNull,
               touched := insert ''entityValue'' (touched ui), formErrors := validate f\<rparr>, w)
       \<and> new_requests w (snd (onSubmit rt base f ui w)) = []
       \<and> submitted_checks rt base f ui w = []"
  using assms by (simp add: onSubmit_def validate_def Let_def new_requests_def submitted_checks_def)

theorem check_validation_fails_fast_witness:
  "length (trim (entityValue (ex_form\<lparr>entityValue := js '' ab ''\<rparr>))) < 3
   \<and> new_requests ex_world (snd (onSubmit ex_runtime [] (ex_form\<lparr>entityValue := js '' ab ''\<rparr>) ex_ui ex_world)) = []
   \<and> error (fst (onSubmit ex_runtime [] (ex_form\<lparr>entityValue := js '' ab ''\<rparr>) ex_ui ex_world))
       = js ''Please fix the highlighted fields and try again.''"
proof -
  have h: "length (trim (entityValue (ex_form\<lparr>entityValue := js '' ab ''\<rparr>))) < 3"
    by (simp add: ex_defs)
  note t = check_validation_fails_fast [OF h, of ex_runtime "[]" ex_ui ex_world]
  from t have r: "new_requests ex_world
      (snd (onSubmit ex_runtime [] (ex_form\<lparr>entityValue := js '' ab ''\<rparr>) ex_ui ex_world)) = []"
    by blast
  from t have "onSubmit ex_runtime [] (ex_form\<lparr>entityValue := js '' ab ''\<rparr>) ex_ui ex_world =
      (ex_ui\<lparr>error := js ''Please fix the highlighted fields and try again.'', result := JNull,
          touched := insert ''entityValue'' (touched ex_ui),
          formErrors := validate (ex_form\<lparr>entityValue := js '' ab ''\<rparr>)\<rparr>, ex_world)"
    by blast
  then have e: "error (fst (onSubmit ex_runtime [] (ex_form\<lparr>entityValue := js '' ab ''\<rparr>) ex_ui ex_world))
       = js ''Please fix the highlighted fields and try again.''"
    by simp
  from h r e show ?thesis by blast
qed

section \<open>The identifier submitted with a check\<close>

text \<open>
  C4: \<open>normalizeUrlInput\<close> returns the trimmed input unchanged when it begins with
  \<open>http://\<close> or \<open>https://\<close> in any letter case, the trimmed input after \<open>https://\<close> when
  it otherwise contains a dot (U+002E) or a slash (U+002F), and the trimmed input itself
  in every other case; every check payload sent carries the normalized identifier as
  \<open>entity_value\<close> and the normalized seller website (\<open>null\<close> when empty) as
  \<open>seller_website\<close>.
\<close>

theorem normalizeUrlInput_scheme_cases:
  "normalizeUrlInput v =
     (if spec_scheme_prefixed (trim v) then trim v
      else if 0x2E \<in> set (trim v) \<or> 0x2F \<in> set (trim v) then js ''https://'' @ trim v
      else trim v)
   \<and> (\<forall>p \<in> set (submitted_checks rt base f ui w).
         entity_value p = normalizeUrlInput (entityValue f)
       \<and> seller_website p =
           (if normalizeUrlInput (sellerWebsite f) = [] then None
            else Some (normalizeUrlInput (sellerWebsite f))))"
proof
  have dot: "js ''.'' = [0x2E]" and slash: "js ''/'' = [0x2F]" by (simp_all add: js_def)
  have e: "\<not> spec_scheme_prefixed []"
    by (simp add: spec_scheme_prefixed_def begins_with_ci_def js_def)
  show "normalizeUrlInput v =
     (if spec_scheme_prefixed (trim v) then trim v
      else if 0x2E \<in> set (trim v) \<or> 0x2F \<in> set (trim v) then js ''https://'' @ trim v
      else trim v)"
  proof (cases "trim v = []")
    case True
    then show ?thesis unfolding normalizeUrlInput_def Let_def using e by simp
  next
    case False
    then show ?thesis
      unfolding normalizeUrlInput_def Let_def scheme_rx_iff dot slash includes_str_single
      by simp
  qed
next
  show "\<forall>p \<in> set (submitted_checks rt base f ui w).
         entity_value p = normalizeUrlInput (entityValue f)
       \<and> seller_website p =
           (if normalizeUrlInput (sellerWebsite f) = [] then None
            else Some (normalizeUrlInput (sellerWebsite f)))"
  proof
    fix p assume "p \<in> set (submitted_checks rt base f ui w)"
    then obtain uploaded where "p = check_payload_of f uploaded"
      by (rule submitted_checks_payload)
    then show "entity_value p = normalizeUrlInput (entityValue f)
       \<and> seller_website p =
           (if normalizeUrlInput (sellerWebsite f) = [] then None
            else Some (normalizeUrlInput (sellerWebsite f)))"
      by (simp add: entity_value_payload seller_website_payload or_null_def)
  qed
qed

theorem normalizeUrlInput_scheme_cases_witness:
  "map entity_value (submitted_checks ex_runtime [] ex_form ex_ui ex_world)
      = [js ''https://totally-legit-shop.example'']
   \<and> map seller_website (submitted_checks ex_runtime [] ex_form ex_ui ex_world)
      = [Some (js ''HTTP://shop.example'')]
   \<and> normalizeUrlInput (js '' @handle '') = js ''@handle''"
proof -
  have a: "normalizeUrlInput (js '' totally-legit-shop.example '') = js ''https://totally-legit-shop.example''"
    by (simp add: normalizeUrlInput_def trim_def is_ws_def js_def scheme_rx_def Canonicalize_def)
  have b: "normalizeUrlInput (js ''HTTP://shop.example'') = js ''HTTP://shop.example''"
    by (simp add: normalizeUrlInput_def trim_def is_ws_def js_def scheme_rx_def Canonicalize_def)
  have c: "normalizeUrlInput (js '' @handle '') = js ''@handle''"
    by (simp add: normalizeUrlInput_def trim_def is_ws_def js_def scheme_rx_def Canonicalize_def)
  have e: "entityValue ex_form = js '' totally-legit-shop.example ''"
     "sellerWebsite ex_form = js ''HTTP://shop.example''" by (simp_all add: ex_form_def)
  have n: "js ''HTTP://shop.example'' \<noteq> []" by (simp add: js_def)
  from normalizeUrlInput_scheme_cases [of "js '' @handle ''" ex_runtime "[]" ex_form ex_ui ex_world]
  show ?thesis unfolding ex_submitted e a b using c n by simp
qed

section \<open>The evidence of a check\<close>

lemma map_of_delete_nulls:
  "distinct (map fst e) \<Longrightarrow>
     map_of (delete_nulls e) k = (case map_of e k of None \<Rightarrow> None | Some v \<Rightarrow> v)"
proof (induction e rule: delete_nulls.induct)
  case 1
  show ?case by simp
next
  case (2 k' e)
  then have "k' \<notin> fst ` set e" by simp
  then have "k' \<notin> fst ` set (delete_nulls e) "
    by (induction e rule: delete_nulls.induct) auto
  then have "map_of (delete_nulls e) k' = None" by (simp add: map_of_eq_None_iff)
  moreover from 2 have "map_of e k' = None" by (simp add: map_of_eq_None_iff)
  ultimately show ?case using 2 by simp
next
  case (3 k' v e)
  then show ?case by simp
qed

lemma triToBool_cases:
  "(map_option EvBool (triToBool a) = Some (EvBool True) \<longleftrightarrow> a = js ''yes'')
   \<and> (map_option EvBool (triToBool a) = Some (EvBool False) \<longleftrightarrow> a = js ''no'')
   \<and> (map_option EvBool (triToBool a) = None \<longleftrightarrow> a \<noteq> js ''yes'' \<and> a \<noteq> js ''no'')"
  by (auto simp: triToBool_def js_def)

lemma buildEvidence_lookup:
  assumes "(k, answer) \<in> set tri_questions"
  shows "map_of (buildEvidence f) k = map_option EvBool (triToBool (answer f))"
proof -
  have d: "\<And>k. map_of (buildEvidence f) k =
     (case map_of [
        (''has_about'', map_option EvBool (triToBool (hasAbout f))),
        (''has_reviews'', map_option EvBool (triToBool (hasReviews f))),
        (''has_address'', map_option EvBool (triToBool (hasAddress f))),
        (''has_phone_or_email'', map_option EvBool (triToBool (hasPhone f))),
        (''has_website'', map_option EvBool (triToBool (hasWebsite f))),
        (''has_posts_older_than_6_months'', map_option EvBool (triToBool (hasOldPosts f))),
        (''has_recent_posts_last_30_days'', map_option EvBool (triToBool (hasRecentPosts f))),
        (''asked_advance_payment'', map_option EvBool (triToBool (askedAdvance f))),
        (''payment_method'', map_option EvStr (or_null (trim (paymentMethod f)))),
        (''location_provided'', map_option EvBool (triToBool (locationProvided f))),
        (''seller_age_visible'', map_option EvBool (triToBool (sellerAgeVisible f))),
        (''https_present'', map_option EvBool (triToBool (httpsPresent f))),
        (''return_policy_visible'', map_option EvBool (triToBool (returnPolicyVisible f)))] k
      of None \<Rightarrow> None | Some v \<Rightarrow> v)"
    unfolding buildEvidence_def Let_def
    by (rule map_of_delete_nulls) simp
  have "\<forall>(k, answer) \<in> set tri_questions.
          map_of (buildEvidence f) k = map_option EvBool (triToBool (answer f))"
    unfolding tri_questions_def by (simp add: d)
  with assms show ?thesis by blast
qed

text \<open>
  C1: for every tri-state answer of the check form, the evidence object has the key with
  \<open>true\<close> exactly when the answer is \<open>yes\<close>, with \<open>false\<close> exactly when it is \<open>no\<close>,
  and lacks the key for every other answer; this object is the \<open>evidence\<close> of the payload.
  An answer that is not \<open>no\<close> is therefore never sent as \<open>false\<close>.
\<close>

theorem evidence_tri_state:
  assumes "(k, answer) \<in> set tri_questions"
  shows "(map_of (buildEvidence f) k = Some (EvBool True) \<longleftrightarrow> answer f = js ''yes'')
       \<and> (map_of (buildEvidence f) k = Some (EvBool False) \<longleftrightarrow> answer f = js ''no'')
       \<and> (k \<notin> fst ` set (buildEvidence f) \<longleftrightarrow> answer f \<noteq> js ''yes'' \<and> answer f \<noteq> js ''no'')
       \<and> evidence (check_payload_of f uploaded) = buildEvidence f"
proof -
  have "k \<notin> fst ` set (buildEvidence f) \<longleftrightarrow> map_of (buildEvidence f) k = None"
    by (simp add: map_of_eq_None_iff)
  moreover have "evidence (check_payload_of f uploaded) = buildEvidence f"
    by (simp add: check_payload_of_def)
  ultimately show ?thesis
    unfolding buildEvidence_lookup [OF assms] using triToBool_cases [of "answer f"] by simp
qed

theorem evidence_tri_state_witness:
  "(''https_present'', httpsPresent) \<in> set tri_questions
   \<and> map_of (buildEvidence ex_form) ''https_present'' = Some (EvBool False)
   \<and> map_of (buildEvidence ex_form) ''has_about'' = Some (EvBool True)
   \<and> ''has_reviews'' \<notin> fst ` set (buildEvidence ex_form)"
proof -
  have q: "(''https_present'', httpsPresent) \<in> set tri_questions"
    "(''has_about'', hasAbout) \<in> set tri_questions"
    "(''has_reviews'', hasReviews) \<in> set tri_questions"
    by (simp_all add: tri_questions_def)
  have a: "httpsPresent ex_form = js ''no''" "hasAbout ex_form = js ''yes''"
    "hasReviews ex_form = js ''unknown''"
    by (simp_all add: ex_form_def)
  have n: "js ''unknown'' \<noteq> js ''yes''" "js ''unknown'' \<noteq> js ''no''"
    by (simp_all add: js_def)
  from evidence_tri_state [OF q(1), of ex_form JNull] evidence_tri_state [OF q(2), of ex_form JNull]
    evidence_tri_state [OF q(3), of ex_form JNull] q(1)
  show ?thesis unfolding a using n by simp
qed

section \<open>Validation of the report form\<close>

text \<open>
  C2: when the trimmed description of a community report has fewer than 12 characters,
  validation fails with an error for the description, and \<open>onSubmit\<close> returns with the
  form and the world unchanged: \<open>submitCommunityReport\<close> does not run and no request is
  sent. A description of 5 characters is such a case.
\<close>

theorem report_validation_fails_fast:
  assumes "length (trim (description f)) < 12"
  shows "\<not> fst (rs_validate f ui0)
       \<and> rs_onSubmit rt base f ui w =
           (f, ui\<lparr>rs_error := js ''Please fix the required fields.'', success := [],
                  fieldErrors := rs_field_errors f\<rparr>, w)
       \<and> new_requests w (snd (snd (rs_onSubmit rt base f ui w))) = []
       \<and> map_of (rs_field_errors f) ''description'' =
           Some (js ''Required: explain what happened (at least 12 characters).'')"
  using assms
  by (simp add: rs_onSubmit_def rs_validate_def rs_field_errors_def Let_def new_requests_def)

theorem report_validation_fails_fast_witness:
  "length (trim (description ex_report)) = 5
   \<and> new_requests ex_world (snd (snd (rs_onSubmit ex_runtime [] ex_report ex_report_ui ex_world))) = []
   \<and> \<not> fst (rs_validate ex_report ex_report_ui)"
proof -
  have h: "length (trim (description ex_report)) = 5"
    by (simp add: ex_report_def js_def trim_def is_ws_def)
  then have "length (trim (description ex_report)) < 12" by simp
  from report_validation_fails_fast [OF this, of ex_report_ui ex_runtime "[]" ex_report_ui ex_world] h
  show ?thesis by blast
qed

section \<open>The outcome of httpJson\<close>

lemma new_Error_http_error_message:
  "new_Error (http_error_message data st) = Error (failure_message data st)"
proof -
  have t: "truthy_opt (Some (JStr (js ''HTTP '' @ nat_str st)))"
    by (simp add: truthy_opt_def js_def)
  show ?thesis
  proof (cases data)
    case (JObj fs)
    show ?thesis
    proof (cases "get_prop data (js ''detail'')")
      case None
      then show ?thesis using JObj
        by (auto simp: http_error_message_def failure_message_def js_and_def js_or_def
            truthy_opt_def is_string_def new_Error_def Let_def split: option.splits)
    next
      case (Some d)
      then show ?thesis using JObj
        by (cases d)
          (auto simp: http_error_message_def failure_message_def js_and_def js_or_def
            truthy_opt_def is_string_def new_Error_def Let_def split: option.splits)
    qed
  qed (auto simp: http_error_message_def failure_message_def js_and_def js_or_def
        truthy_opt_def is_string_def new_Error_def Let_def)
qed

lemma nat_str_400: "nat_str 400 = js ''400''"
  by (simp add: nat_str.simps js_def)

text \<open>
  C10, as the code has it: for a response that is ok, \<open>httpJson\<close> returns the parsed body
  (the raw text when it does not parse, \<open>null\<close> when it is empty) and does not throw; for
  any other response it throws an \<open>Error\<close> whose message is the \<open>detail\<close> of the body
  when that is a string that is not empty, otherwise the string form of the \<open>error\<close> of
  the body when that is truthy, otherwise \<open>HTTP\<close> and the status.
\<close>

theorem httpJson_outcome:
  assumes "respond w (http_request base path options) = Responded res"
  shows "fst (httpJson rt base path options w) =
     (let text = res_text res;
          data = (if text = [] then JNull
                  else case JSON_parse rt text of None \<Rightarrow> JStr text | Some d \<Rightarrow> d)
      in if ok res then Inr data else Inl (Error (failure_message data (status res))))"
  using assms
  by (simp add: httpJson_def fetch_def Let_def new_Error_http_error_message)

theorem httpJson_outcome_witness:
  "fst (httpJson ex_runtime [] (js ''/api/check'')
          \<lparr>o_method = Some (js ''POST''), o_headers = None, o_body = None\<rparr> ex_world_refusing)
     = Inl (Error (js ''HTTP 400''))
   \<and> fst (httpJson ex_runtime [] (js ''/api/check'')
          \<lparr>o_method = Some (js ''POST''), o_headers = None, o_body = None\<rparr> ex_world)
     = Inr ex_check_json"
proof -
  have r: "respond ex_world_refusing (http_request [] (js ''/api/check'')
             \<lparr>o_method = Some (js ''POST''), o_headers = None, o_body = None\<rparr>)
           = Responded \<lparr>status = 400, body_text = Some ex_detail_text\<rparr>"
    by (simp add: ex_world_refusing_def)
  have p: "JSON_parse ex_runtime ex_detail_text = Some ex_detail_json"
    by (simp add: ex_runtime_def ex_detail_text_def ex_upload_text_def quoted_def js_def)
  have n: "ex_detail_text \<noteq> []" by (simp add: ex_detail_text_def js_def)
  have f: "failure_message ex_detail_json 400 = js ''HTTP 400''"
    by (simp add: failure_message_def ex_detail_json_def nat_str_400) (simp add: js_def)
  have a: "fst (httpJson ex_runtime [] (js ''/api/check'')
          \<lparr>o_method = Some (js ''POST''), o_headers = None, o_body = None\<rparr> ex_world_refusing)
     = Inl (Error (js ''HTTP 400''))"
    using httpJson_outcome [OF r, of ex_runtime] p n f
    by (simp add: res_text_def ok_def)
  have r': "respond ex_world (http_request [] (js ''/api/check'')
             \<lparr>o_method = Some (js ''POST''), o_headers = None, o_body = None\<rparr>)
           = Responded \<lparr>status = 200, body_text = Some ex_check_text\<rparr>"
    by (simp add: ex_world_def http_request_def js_def)
  have p': "JSON_parse ex_runtime ex_check_text = Some ex_check_json"
    by (simp add: ex_runtime_def ex_detail_text_def ex_upload_text_def ex_check_text_def quoted_def js_def)
  have n': "ex_check_text \<noteq> []" by (simp add: ex_check_text_def js_def)
  have b: "fst (httpJson ex_runtime [] (js ''/api/check'')
          \<lparr>o_method = Some (js ''POST''), o_headers = None, o_body = None\<rparr> ex_world)
     = Inr ex_check_json"
    using httpJson_outcome [OF r', of ex_runtime] p' n'
    by (simp add: res_text_def ok_def)
  from a b show ?thesis by blast
qed

text \<open>
  The message is not always the \<open>detail\<close> when that is a string: for a response 400 whose
  body has the empty string as \<open>detail\<close>, the message is \<open>HTTP 400\<close>.
\<close>

theorem httpJson_empty_detail_counterexample:
  "fst (httpJson ex_runtime [] (js ''/api/check'')
          \<lparr>o_method = Some (js ''POST''), o_headers = None, o_body = None\<rparr> ex_world_refusing)
     = Inl (Error (js ''HTTP 400''))
   \<and> JSON_parse ex_runtime ex_detail_text = Some ex_detail_json
   \<and> get_prop ex_detail_json (js ''detail'') = Some (JStr [])
   \<and> spec_error_message ex_detail_json 400 = []
   \<and> js ''HTTP 400'' \<noteq> spec_error_message ex_detail_json 400"
proof -
  have p: "JSON_parse ex_runtime ex_detail_text = Some ex_detail_json"
    by (simp add: ex_runtime_def ex_detail_text_def ex_upload_text_def quoted_def js_def)
  have n: "ex_detail_text \<noteq> []" by (simp add: ex_detail_text_def js_def)
  have g: "get_prop ex_detail_json (js ''detail'') = Some (JStr [])"
    by (simp add: ex_detail_json_def)
  have e: "get_prop ex_detail_json (js ''error'') = None"
    by (simp add: ex_detail_json_def js_def)
  have s: "spec_error_message ex_detail_json 400 = []"
    by (simp add: spec_error_message_def g)
  have m: "new_Error (http_error_message ex_detail_json 400) = Error (js ''HTTP 400'')"
    by (simp add: http_error_message_def g e js_and_def js_or_def truthy_opt_def is_string_def
        new_Error_def nat_str_400) (simp add: js_def)
  have a: "fst (httpJson ex_runtime [] (js ''/api/check'')
          \<lparr>o_method = Some (js ''POST''), o_headers = None, o_body = None\<rparr> ex_world_refusing)
     = Inl (Error (js ''HTTP 400''))"
    using p n m by (simp add: httpJson_def fetch_def ex_world_refusing_def res_text_def ok_def)
  have d: "js ''HTTP 400'' \<noteq> spec_error_message ex_detail_json 400"
    unfolding s by (simp add: js_def)
  from a p g s d show ?thesis by blast
qed

section \<open>The paths of the interface\<close>

lemma new_requests_sent: "new_requests w (w\<lparr>sent := sent w @ rs\<rparr>) = rs"
  by (simp add: new_requests_def)

text \<open>
  C7: \<open>createCheck\<close> sends one POST to \<open>/api/check\<close>, \<open>submitCommunityReport\<close> one POST
  to \<open>/api/community/report\<close> and \<open>uploadFile\<close> one POST to \<open>/api/upload\<close>;
  \<open>reportPdfUrl\<close> and \<open>fileUrl\<close> build \<open>/api/report/{id}/pdf\<close> and \<open>/api/file/{hash}\<close>;
  each path follows the configured \<open>API_BASE\<close> and nothing else, and \<open>API_BASE\<close> is the
  configured value, or the empty string without one.
\<close>

theorem api_paths:
  "map (\<lambda>r. (url r, http_method r)) (new_requests w (snd (createCheck rt (API_BASE env) cp w)))
     = [(API_BASE env @ js ''/api/check'', js ''POST'')]
   \<and> map (\<lambda>r. (url r, http_method r))
         (new_requests w (snd (submitCommunityReport rt (API_BASE env) rp w)))
     = [(API_BASE env @ js ''/api/community/report'', js ''POST'')]
   \<and> map (\<lambda>r. (url r, http_method r)) (new_requests w (snd (uploadFile rt (API_BASE env) fl w)))
     = [(API_BASE env @ js ''/api/upload'', js ''POST'')]
   \<and> reportPdfUrl (API_BASE env) ident = API_BASE env @ js ''/api/report/'' @ to_string_opt ident @ js ''/pdf''
   \<and> fileUrl (API_BASE env) sha = API_BASE env @ js ''/api/file/'' @ to_string_opt sha
   \<and> API_BASE env = (case env of None \<Rightarrow> [] | Some b \<Rightarrow> b)"
proof -
  have "map (\<lambda>r. (url r, http_method r)) (new_requests w (snd (createCheck rt (API_BASE env) cp w)))
     = [(API_BASE env @ js ''/api/check'', js ''POST'')]"
    by (simp add: createCheck_world new_requests_sent check_request_def http_request_def)
  moreover have "map (\<lambda>r. (url r, http_method r))
         (new_requests w (snd (submitCommunityReport rt (API_BASE env) rp w)))
     = [(API_BASE env @ js ''/api/community/report'', js ''POST'')]"
    by (simp add: submitCommunityReport_world new_requests_sent report_request_def http_request_def)
  moreover have "map (\<lambda>r. (url r, http_method r)) (new_requests w (snd (uploadFile rt (API_BASE env) fl w)))
     = [(API_BASE env @ js ''/api/upload'', js ''POST'')]"
    by (simp add: uploadFile_world new_requests_sent upload_request_def)
  moreover have "API_BASE env = (case env of None \<Rightarrow> [] | Some b \<Rightarrow> b)"
    by (simp add: API_BASE_def split: option.splits)
  ultimately show ?thesis
    by (simp add: reportPdfUrl_def fileUrl_def)
qed

theorem api_paths_witness:
  "reportPdfUrl (API_BASE None) (Some (JNum (js ''7''))) = js ''/api/report/7/pdf''
   \<and> fileUrl (API_BASE None) (Some (JStr (js ''ab12''))) = js ''/api/file/ab12''
   \<and> map url (new_requests ex_world (snd (createCheck ex_runtime (API_BASE None)
         (check_payload_of ex_form JNull) ex_world))) = [js ''/api/check'']"
proof -
  note t = api_paths [where w = ex_world and rt = ex_runtime and env = None
      and cp = "check_payload_of ex_form JNull" and rp = "report_payload_of ex_report JNull"
      and fl = ex_file and ident = "Some (JNum (js ''7''))" and sha = "Some (JStr (js ''ab12''))"]
  have e: "API_BASE None = []" by (simp add: API_BASE_def)
  from t have "reportPdfUrl (API_BASE None) (Some (JNum (js ''7'')))
      = API_BASE None @ js ''/api/report/'' @ to_string_opt (Some (JNum (js ''7''))) @ js ''/pdf''"
    by blast
  then have a: "reportPdfUrl (API_BASE None) (Some (JNum (js ''7''))) = js ''/api/report/7/pdf''"
    unfolding e by (simp add: to_string_opt_def js_def)
  from t have "fileUrl (API_BASE None) (Some (JStr (js ''ab12'')))
      = API_BASE None @ js ''/api/file/'' @ to_string_opt (Some (JStr (js ''ab12'')))"
    by blast
  then have b: "fileUrl (API_BASE None) (Some (JStr (js ''ab12''))) = js ''/api/file/ab12''"
    unfolding e by (simp add: to_string_opt_def js_def)
  from t have "map (\<lambda>r. (url r, http_method r)) (new_requests ex_world
        (snd (createCheck ex_runtime (API_BASE None) (check_payload_of ex_form JNull) ex_world)))
      = [(API_BASE None @ js ''/api/check'', js ''POST'')]"
    by blast
  then have "map fst (map (\<lambda>r. (url r, http_method r)) (new_requests ex_world
        (snd (createCheck ex_runtime (API_BASE None) (check_payload_of ex_form JNull) ex_world))))
      = [API_BASE None @ js ''/api/check'']"
    by (simp only: list.map fst_conv)
  then have c: "map url (new_requests ex_world (snd (createCheck ex_runtime (API_BASE None)
         (check_payload_of ex_form JNull) ex_world))) = [js ''/api/check'']"
    unfolding e by (simp add: comp_def)
  from a b c show ?thesis by blast
qed

section \<open>The attachment of a check\<close>

lemma attachment_payload:
  "attachment_sha256s (check_payload_of f uploaded) =
     (if truthy uploaded then Some [get_prop uploaded (js ''sha256'')] else None)"
  by (simp add: check_payload_of_def)

lemma ex_submitted_empty_upload:
  "submitted_checks ex_runtime [] ex_form ex_ui ex_world_empty_upload = [check_payload_of ex_form JNull]"
proof -
  have "respond ex_world_empty_upload (upload_request [] ex_file)
          = Responded \<lparr>status = 200, body_text = Some []\<rparr>"
    by (simp add: ex_world_empty_upload_def upload_request_def)
  moreover have "res_json ex_runtime \<lparr>status = 200, body_text = Some []\<rparr> = JNull"
    by (simp add: res_json_def ex_runtime_def ex_upload_text_def ex_detail_text_def ex_check_text_def js_def)
  moreover have "checkFile ex_form = Some ex_file" by (simp add: ex_form_def)
  ultimately show ?thesis
    unfolding submitted_checks_eq using ex_valid by (simp add: ok_def)
qed

text \<open>
  C8, as the code has it: every check payload sent has \<open>attachment_sha256s\<close> \<open>null\<close> when
  no file was chosen; when a file was chosen, the upload was answered with an ok response,
  and the field is the one-element list of the \<open>sha256\<close> of the JSON body of that
  response, or \<open>null\<close> when that body is not truthy (empty, unparseable, \<open>null\<close>). For
  an upload response that is not ok, \<open>uploadFile\<close> throws and no check is sent.
\<close>

theorem attachment_sha256s_of_submission:
  "(\<forall>p \<in> set (submitted_checks rt base f ui w).
      case checkFile f of
        None \<Rightarrow> attachment_sha256s p = None
      | Some fl \<Rightarrow>
          (\<exists>res. respond w (upload_request base fl) = Responded res \<and> ok res \<and>
             attachment_sha256s p =
               (if truthy (res_json rt res)
                then Some [get_prop (res_json rt res) (js ''sha256'')] else None)))
   \<and> (\<forall>fl res. respond w (upload_request base fl) = Responded res \<and> \<not> ok res \<longrightarrow>
         isl (fst (uploadFile rt base fl w))
       \<and> (checkFile f = Some fl \<longrightarrow> submitted_checks rt base f ui w = []))"
proof (intro conjI ballI allI impI)
  fix p assume p: "p \<in> set (submitted_checks rt base f ui w)"
  show "case checkFile f of
        None \<Rightarrow> attachment_sha256s p = None
      | Some fl \<Rightarrow>
          (\<exists>res. respond w (upload_request base fl) = Responded res \<and> ok res \<and>
             attachment_sha256s p =
               (if truthy (res_json rt res)
                then Some [get_prop (res_json rt res) (js ''sha256'')] else None))"
  proof (cases "checkFile f")
    case None
    with p have "p = check_payload_of f JNull"
      unfolding submitted_checks_eq by (simp split: if_splits)
    with None show ?thesis by (simp add: attachment_payload)
  next
    case (Some fl)
    show ?thesis
    proof (cases "respond w (upload_request base fl)")
      case (NetworkError e)
      with p Some show ?thesis unfolding submitted_checks_eq by (simp split: if_splits)
    next
      case (Responded res)
      with p Some have "ok res" "p = check_payload_of f (res_json rt res)"
        unfolding submitted_checks_eq by (simp_all split: if_splits)
      with Some Responded show ?thesis by (simp add: attachment_payload)
    qed
  qed
next
  fix fl res assume r: "respond w (upload_request base fl) = Responded res \<and> \<not> ok res"
  then show "isl (fst (uploadFile rt base fl w))" by (simp add: uploadFile_value)
  assume "checkFile f = Some fl"
  with r show "submitted_checks rt base f ui w = []"
    unfolding submitted_checks_eq by simp
qed

theorem attachment_sha256s_of_submission_witness:
  "map attachment_sha256s (submitted_checks ex_runtime [] ex_form ex_ui ex_world)
     = [Some [Some (JStr (js ''ab12''))]]
   \<and> isl (fst (uploadFile ex_runtime [] ex_file ex_world_refusing))
   \<and> submitted_checks ex_runtime [] ex_form ex_ui ex_world_refusing = []"
proof -
  have c: "checkFile ex_form = Some ex_file" by (simp add: ex_form_def)
  have r: "respond ex_world (upload_request [] ex_file)
          = Responded \<lparr>status = 200, body_text = Some ex_upload_text\<rparr>"
    by (simp add: ex_world_def upload_request_def)
  have j: "res_json ex_runtime \<lparr>status = 200, body_text = Some ex_upload_text\<rparr> = ex_upload_json"
    by (simp add: res_json_def ex_runtime_def)
  have g: "truthy ex_upload_json" "get_prop ex_upload_json (js ''sha256'') = Some (JStr (js ''ab12''))"
    by (simp_all add: ex_upload_json_def)
  note t = attachment_sha256s_of_submission [of ex_runtime "[]" ex_form ex_ui ex_world]
  have m: "check_payload_of ex_form ex_upload_json
      \<in> set (submitted_checks ex_runtime [] ex_form ex_ui ex_world)"
    unfolding ex_submitted by simp
  from t m have "case checkFile ex_form of
        None \<Rightarrow> attachment_sha256s (check_payload_of ex_form ex_upload_json) = None
      | Some fl \<Rightarrow>
          (\<exists>res. respond ex_world (upload_request [] fl) = Responded res \<and> ok res \<and>
             attachment_sha256s (check_payload_of ex_form ex_upload_json) =
               (if truthy (res_json ex_runtime res)
                then Some [get_prop (res_json ex_runtime res) (js ''sha256'')] else None))"
    by blast
  then have "attachment_sha256s (check_payload_of ex_form ex_upload_json) = Some [Some (JStr (js ''ab12''))]"
    unfolding c using r j g by auto
  then have a: "map attachment_sha256s (submitted_checks ex_runtime [] ex_form ex_ui ex_world)
     = [Some [Some (JStr (js ''ab12''))]]"
    unfolding ex_submitted by simp
  have r': "respond ex_world_refusing (upload_request [] ex_file)
           = Responded \<lparr>status = 400, body_text = Some ex_detail_text\<rparr>
         \<and> \<not> ok \<lparr>status = 400, body_text = Some ex_detail_text\<rparr>"
    by (simp add: ex_world_refusing_def ok_def)
  note t' = attachment_sha256s_of_submission [of ex_runtime "[]" ex_form ex_ui ex_world_refusing]
  from t' r' c have b: "isl (fst (uploadFile ex_runtime [] ex_file ex_world_refusing))"
    "submitted_checks ex_runtime [] ex_form ex_ui ex_world_refusing = []"
    by blast+
  from a b show ?thesis by blast
qed

text \<open>
  A chosen file does not always give a one-element list: when the upload answers 200
  with an empty body, the check is sent with \<open>attachment_sha256s\<close> \<open>null\<close>.
\<close>

theorem attachment_empty_upload_counterexample:
  "checkFile ex_form = Some ex_file
   \<and> respond ex_world_empty_upload (upload_request [] ex_file)
       = Responded \<lparr>status = 200, body_text = Some []\<rparr>
   \<and> map attachment_sha256s (submitted_checks ex_runtime [] ex_form ex_ui ex_world_empty_upload)
       = [None]"
proof -
  have "respond ex_world_empty_upload (upload_request [] ex_file)
          = Responded \<lparr>status = 200, body_text = Some []\<rparr>"
    by (simp add: ex_world_empty_upload_def upload_request_def)
  moreover have "checkFile ex_form = Some ex_file" by (simp add: ex_form_def)
  moreover have "map attachment_sha256s (submitted_checks ex_runtime [] ex_form ex_ui ex_world_empty_upload)
       = [None]"
    unfolding ex_submitted_empty_upload by (simp add: attachment_payload)
  ultimately show ?thesis by blast
qed

section \<open>Creation of a community report\<close>

lemma submitCommunityReport_value:
  assumes "respond w (report_request base p) = Responded res" "ok res"
  shows "fst (submitCommunityReport rt base p w) =
     Inr (if res_text res = [] then JNull
          else case JSON_parse rt (res_text res) of None \<Rightarrow> JStr (res_text res) | Some d \<Rightarrow> d)"
  using assms
  by (simp add: submitCommunityReport_def report_request_def httpJson_def fetch_def Let_def)

lemma respond_after_upload:
  "respond (snd (uploadFile rt base fl w)) = respond w"
  by (simp add: uploadFile_world)

lemma rs_onSubmit_success:
  assumes valid: "rs_field_errors f = []"
    and up: "rs_uploaded rt base f w = Inr uploaded"
    and res: "respond w (report_request base (report_payload_of f uploaded)) = Responded res" "ok res"
    and out: "res_text res \<noteq> []" "JSON_parse rt (res_text res) = Some out" "out \<noteq> JNull"
  shows "success (fst (snd (rs_onSubmit rt base f ui w))) = success_message out"
proof (cases "rs_file f")
  case None
  with up have u: "uploaded = JNull" by (simp add: rs_uploaded_def)
  have "fst (submitCommunityReport rt base (report_payload_of f JNull) w) = Inr out"
    using submitCommunityReport_value [OF res [unfolded u], of rt] out by simp
  then obtain w2 where "submitCommunityReport rt base (report_payload_of f JNull) w = (Inr out, w2)"
    by (cases "submitCommunityReport rt base (report_payload_of f JNull) w") simp
  then show ?thesis using valid None out(3)
    by (simp add: rs_onSubmit_def rs_validate_def Let_def)
next
  case (Some fl)
  obtain w1 where w1: "uploadFile rt base fl w = (Inr uploaded, w1)"
    using up Some by (cases "uploadFile rt base fl w") (simp add: rs_uploaded_def)
  then have "respond w1 = respond w" using respond_after_upload [of rt base fl w] by simp
  with res have "respond w1 (report_request base (report_payload_of f uploaded)) = Responded res"
    by simp
  then have "fst (submitCommunityReport rt base (report_payload_of f uploaded) w1) = Inr out"
    using submitCommunityReport_value [of w1 base _ res rt] res(2) out by simp
  then obtain w2 where "submitCommunityReport rt base (report_payload_of f uploaded) w1 = (Inr out, w2)"
    by (cases "submitCommunityReport rt base (report_payload_of f uploaded) w1") simp
  then show ?thesis using valid Some w1 out(3)
    by (simp add: rs_onSubmit_def rs_validate_def Let_def)
qed

lemma submit_eq:
  "submit r st = (Suc (length st), st @ [(Suc (length st), \<lparr>sr_input = r, sr_status = Pending\<rparr>)])"
  by (simp add: submit_def Let_def)

lemma post_community_report_eq:
  "fst (post_community_report r st)
     = JObj [(js ''id'', JNum (nat_str (Suc (length st)))), (js ''status'', JStr (js ''pending''))]"
  by (simp add: post_community_report_def submit_eq)

text \<open>
  C6: a report created by \<open>submit\<close> is Pending, and the answer of
  \<open>POST /api/community/report\<close> carries its id and the status \<open>pending\<close> (the store and
  the handler as the specification describes them); when a valid report is answered
  with a body that parses to a value \<open>out\<close>, the page shows the string forms of \<open>out.id\<close>
  and \<open>out.status\<close> unchanged in its success message.
\<close>

theorem new_report_starts_pending:
  "sr_status (snd (last (snd (submit r st)))) = Pending
   \<and> snd (submit r st) = st @ [(fst (submit r st), \<lparr>sr_input = r, sr_status = Pending\<rparr>)]
   \<and> snd (post_community_report r st) = snd (submit r st)
   \<and> get_prop (fst (post_community_report r st)) (js ''id'') = Some (JNum (nat_str (fst (submit r st))))
   \<and> get_prop (fst (post_community_report r st)) (js ''status'') = Some (JStr (js ''pending''))
   \<and> (rs_field_errors f = [] \<and> rs_uploaded rt base f w = Inr uploaded
        \<and> respond w (report_request base (report_payload_of f uploaded)) = Responded res \<and> ok res
        \<and> res_text res \<noteq> [] \<and> JSON_parse rt (res_text res) = Some out \<and> out \<noteq> JNull
      \<longrightarrow> success (fst (snd (rs_onSubmit rt base f ui w)))
          = js ''Submitted. Report ID #'' @ to_string_opt (get_prop out (js ''id''))
            @ js '' (status: '' @ to_string_opt (get_prop out (js ''status''))
            @ js ''). It will affect checks after admin approval.'')"
proof (intro conjI impI)
  show "sr_status (snd (last (snd (submit r st)))) = Pending" by (simp add: submit_eq)
  show "snd (submit r st) = st @ [(fst (submit r st), \<lparr>sr_input = r, sr_status = Pending\<rparr>)]"
    by (simp add: submit_eq)
  show "snd (post_community_report r st) = snd (submit r st)"
    by (simp add: post_community_report_def submit_eq)
  show "get_prop (fst (post_community_report r st)) (js ''id'') = Some (JNum (nat_str (fst (submit r st))))"
    by (simp add: post_community_report_eq submit_eq)
  show "get_prop (fst (post_community_report r st)) (js ''status'') = Some (JStr (js ''pending''))"
    by (simp add: post_community_report_eq) (simp add: js_def)
next
  assume "rs_field_errors f = [] \<and> rs_uploaded rt base f w = Inr uploaded
        \<and> respond w (report_request base (report_payload_of f uploaded)) = Responded res \<and> ok res
        \<and> res_text res \<noteq> [] \<and> JSON_parse rt (res_text res) = Some out \<and> out \<noteq> JNull"
  then have "success (fst (snd (rs_onSubmit rt base f ui w))) = success_message out"
    by (intro rs_onSubmit_success) blast+
  then show "success (fst (snd (rs_onSubmit rt base f ui w)))
          = js ''Submitted. Report ID #'' @ to_string_opt (get_prop out (js ''id''))
            @ js '' (status: '' @ to_string_opt (get_prop out (js ''status''))
            @ js ''). It will affect checks after admin approval.''"
    by (simp add: success_message_def)
qed

theorem new_report_starts_pending_witness:
  "fst (post_community_report (report_payload_of ex_valid_report JNull) ex_store)
     = JObj [(js ''id'', JNum (js ''2'')), (js ''status'', JStr (js ''pending''))]
   \<and> success (fst (snd (rs_onSubmit ex_report_runtime [] ex_valid_report ex_report_ui ex_report_world)))
     = js ''Submitted. Report ID #2 (status: pending). It will affect checks after admin approval.''"
proof -
  let ?out = "fst (post_community_report (report_payload_of ex_valid_report JNull) ex_store)"
  have o: "?out = JObj [(js ''id'', JNum (js ''2'')), (js ''status'', JStr (js ''pending''))]"
    by (simp add: post_community_report_eq ex_store_def nat_str.simps) (simp add: js_def)
  have v: "rs_field_errors ex_valid_report = []"
    by (simp add: rs_field_errors_def ex_valid_report_def ex_report_def trim_def is_ws_def js_def)
  have u: "rs_uploaded ex_report_runtime [] ex_valid_report ex_report_world = Inr JNull"
    by (simp add: rs_uploaded_def ex_valid_report_def ex_report_def)
  have r: "respond ex_report_world (report_request [] (report_payload_of ex_valid_report JNull))
      = Responded \<lparr>status = 200, body_text = Some ex_report_text\<rparr>"
    by (simp add: ex_report_world_def)
  have k: "ok \<lparr>status = 200, body_text = Some ex_report_text\<rparr>" by (simp add: ok_def)
  have t: "res_text \<lparr>status = 200, body_text = Some ex_report_text\<rparr> = ex_report_text"
    by (simp add: res_text_def)
  have n: "ex_report_text \<noteq> []" by (simp add: ex_report_text_def js_def)
  have p: "JSON_parse ex_report_runtime ex_report_text = Some ?out"
    by (simp add: ex_report_runtime_def)
  have z: "?out \<noteq> JNull" unfolding o by simp
  note c = new_report_starts_pending [of "report_payload_of ex_valid_report JNull" ex_store
      ex_valid_report ex_report_runtime "[]" ex_report_world JNull
      "\<lparr>status = 200, body_text = Some ex_report_text\<rparr>" ?out ex_report_ui]
  from c v u r k n p z have "success (fst (snd (rs_onSubmit ex_report_runtime [] ex_valid_report ex_report_ui ex_report_world)))
          = js ''Submitted. Report ID #'' @ to_string_opt (get_prop ?out (js ''id''))
            @ js '' (status: '' @ to_string_opt (get_prop ?out (js ''status''))
            @ js ''). It will affect checks after admin approval.''"
    unfolding t by blast
  then have "success (fst (snd (rs_onSubmit ex_report_runtime [] ex_valid_report ex_report_ui ex_report_world)))
     = js ''Submitted. Report ID #2 (status: pending). It will affect checks after admin approval.''"
    unfolding o by (simp add: to_string_opt_def) (simp add: js_def)
  with o show ?thesis by blast
qed

section \<open>Approved reports and the risk level\<close>

lemma fold_max_tier_ge:
  "tier_rank a \<le> tier_rank (fold max_tier ts a)
   \<and> (\<forall>t \<in> set ts. tier_rank t \<le> tier_rank (fold max_tier ts a))"
proof (induction ts arbitrary: a)
  case Nil
  show ?case by simp
next
  case (Cons t ts)
  have "tier_rank a \<le> tier_rank (max_tier t a)" "tier_rank t \<le> tier_rank (max_tier t a)"
    by (simp_all add: max_tier_def)
  with Cons [of "max_tier t a"] show ?case
    by (auto intro: order_trans)
qed

lemma rank_at_least_Medium: "2 \<le> tier_rank t \<Longrightarrow> t = Medium \<or> t = High"
  by (cases t) simp_all

lemma reports_in_submit:
  "s \<noteq> Pending \<Longrightarrow> reports_in s (snd (submit r st)) etype evalue = reports_in s st etype evalue"
  by (simp add: reports_in_def submit_def Let_def)

lemma risk_level_approved_only:
  assumes "reports_in Approved st' etype evalue = reports_in Approved st etype evalue"
  shows "risk_level pol tiers answered st' etype evalue = risk_level pol tiers answered st etype evalue"
  using assms by (simp add: risk_level_def community_tier_def aggregate_of_def Let_def)

lemma ex_store_approved:
  "reports_in Approved ex_store (js ''facebook'') (js ''fb.com/some.seller'')
     = [\<lparr>sr_input = report_payload_of ex_valid_report JNull, sr_status = Approved\<rparr>]"
  by (simp add: reports_in_def ex_store_def report_payload_of_def ex_valid_report_def ex_report_def
      trim_def is_ws_def js_def)

text \<open>
  C5: with the Scoring Engine as the specification describes it, an entity whose
  aggregate has \<open>approved_count > 0\<close> has the risk level Medium or High whatever the
  other Signals are; the level depends on the store through its Approved reports only,
  so a change of \<open>pending_count\<close> alone, such as the submission of a report, leaves it
  unchanged.
\<close>

theorem approved_report_forces_medium:
  "(0 < approved_count (aggregate_of st etype evalue) \<longrightarrow>
      risk_level pol tiers answered st etype evalue = Medium
      \<or> risk_level pol tiers answered st etype evalue = High)
   \<and> (reports_in Approved st' etype evalue = reports_in Approved st etype evalue \<longrightarrow>
      risk_level pol tiers answered st' etype evalue = risk_level pol tiers answered st etype evalue)
   \<and> risk_level pol tiers answered (snd (submit r st)) etype evalue
      = risk_level pol tiers answered st etype evalue
   \<and> approved_count (aggregate_of (snd (submit r st)) etype evalue)
      = approved_count (aggregate_of st etype evalue)"
proof (intro conjI impI)
  assume a: "0 < approved_count (aggregate_of st etype evalue)"
  then have ne: "reports_in Approved st etype evalue \<noteq> []"
    by (simp add: aggregate_of_def)
  then obtain c where c: "community_tier pol st etype evalue = Some c" "c = Medium \<or> c = High"
    by (simp add: community_tier_def Let_def)
  let ?all = "tiers @ [c]"
  have r: "risk_level pol tiers answered st etype evalue = fold max_tier ?all Low"
    using c(1) a by (simp add: risk_level_def Let_def)
  have "tier_rank c \<le> tier_rank (fold max_tier ?all Low)"
    using fold_max_tier_ge [of Low ?all] by simp
  moreover from c(2) have "2 \<le> tier_rank c" by auto
  ultimately have "2 \<le> tier_rank (risk_level pol tiers answered st etype evalue)"
    unfolding r by simp
  then show "risk_level pol tiers answered st etype evalue = Medium
      \<or> risk_level pol tiers answered st etype evalue = High"
    by (rule rank_at_least_Medium)
next
  assume "reports_in Approved st' etype evalue = reports_in Approved st etype evalue"
  then show "risk_level pol tiers answered st' etype evalue = risk_level pol tiers answered st etype evalue"
    by (rule risk_level_approved_only)
next
  show "risk_level pol tiers answered (snd (submit r st)) etype evalue
      = risk_level pol tiers answered st etype evalue"
    by (rule risk_level_approved_only) (simp add: reports_in_submit)
next
  show "approved_count (aggregate_of (snd (submit r st)) etype evalue)
      = approved_count (aggregate_of st etype evalue)"
    by (simp add: aggregate_of_def reports_in_submit)
qed

theorem approved_report_forces_medium_witness:
  "0 < approved_count (aggregate_of ex_store (js ''facebook'') (js ''fb.com/some.seller''))
   \<and> r_category (report_payload_of ex_valid_report JNull) = js ''advance_payment_fraud''
   \<and> risk_level ex_policy [Low, Unknown, Low] True ex_store (js ''facebook'') (js ''fb.com/some.seller'')
       = Medium"
proof -
  have a: "0 < approved_count (aggregate_of ex_store (js ''facebook'') (js ''fb.com/some.seller''))"
    by (simp add: aggregate_of_def ex_store_approved)
  have k: "r_category (report_payload_of ex_valid_report JNull) = js ''advance_payment_fraud''"
    by (simp add: report_payload_of_def ex_valid_report_def ex_report_def)
  have "community_tier ex_policy ex_store (js ''facebook'') (js ''fb.com/some.seller'') = Some Medium"
    by (simp add: community_tier_def ex_store_approved k) (simp add: ex_policy_def)
  then have h: "risk_level ex_policy [Low, Unknown, Low] True ex_store (js ''facebook'') (js ''fb.com/some.seller'')
       \<noteq> High"
    by (simp add: risk_level_def max_tier_def)
  from approved_report_forces_medium [of ex_store "js ''facebook''" "js ''fb.com/some.seller''"
      ex_policy "[Low, Unknown, Low]" True ex_store "report_payload_of ex_valid_report JNull"] a h
  have "risk_level ex_policy [Low, Unknown, Low] True ex_store (js ''facebook'') (js ''fb.com/some.seller'')
       = Medium"
    by blast
  with a k show ?thesis by blast
qed

end
